theory Spec2Isabelle
  imports Complex_Main "HOL-Library.Log_Nat"
begin

section \<open>Results of fallible calls\<close>

text \<open>
  Every Python exception that the script can meet is a value: \<open>KeyError\<close> of a dict,
  \<open>InvalidArgumentError\<close> of a tensor operation that rejects the shapes it is given,
  \<open>ValueError\<close> of the array library, \<open>IllegalFlagValueError\<close> of the flag library,
  \<open>UnboundLocalError\<close> of a local variable read before it is bound,
  \<open>UsageError\<close> of \<^verbatim>\<open>absl.app\<close> with its exit code,
  \<open>SystemExit\<close> of \<^verbatim>\<open>sys.exit\<close> with its exit status, and \<open>LibraryError\<close> for
  any other exception of the framework. The script has no
  \<^verbatim>\<open>try\<close>, so a call that raises ends the enclosing function with the same
  exception: \<open>bind_result\<close> is that rule.
\<close>

datatype error =
    KeyError string
  | InvalidArgumentError
  | ValueError
  | IllegalFlagValueError string
  | UnboundLocalError string
  | UsageError int
  | SystemExit int
  | LibraryError string

fun bind_result :: "error + 'a \<Rightarrow> ('a \<Rightarrow> error + 'b) \<Rightarrow> error + 'b" where
  "bind_result (Inl e) f = Inl e"
| "bind_result (Inr x) f = f x"

section \<open>Dense tensors\<close>

text \<open>
  A tensor is its shape and its elements in row-major order, as the tensor library stores
  it. The scalar type stays a type variable: the reward computation needs \<open>0\<close>, \<open>+\<close>
  and \<open>*\<close> (no law of arithmetic is used, so rounding does not matter as long as a dot
  product is summed in one fixed order), the reductions need a linear order with a least
  element (\<open>float32\<close> without NaN, where the least element is minus infinity). The
  type \<open>float32\<close> below is such a scalar type, with the rounding of single precision.
\<close>

datatype 'a tensor = Tensor (shape: "nat list") (elems: "'a list")

definition wf_tensor :: "'a tensor \<Rightarrow> bool" where
  "wf_tensor t \<longleftrightarrow> length (elems t) = prod_list (shape t)"

text \<open>\<open>rows k w xs\<close> cuts row-major data into \<open>k\<close> consecutive rows of width \<open>w\<close>.\<close>

primrec rows :: "nat \<Rightarrow> nat \<Rightarrow> 'a list \<Rightarrow> 'a list list" where
  "rows 0 w xs = []"
| "rows (Suc k) w xs = take w xs # rows k w (drop w xs)"

text \<open>
  \<open>lanes n p blk\<close> reads a block of shape \<open>[n, p]\<close> along its first axis: lane \<open>j\<close>
  holds the elements at \<open>j\<close>, \<open>p + j\<close>, \<open>2 * p + j\<close>, ...
\<close>

definition lanes :: "nat \<Rightarrow> nat \<Rightarrow> 'a list \<Rightarrow> 'a list list" where
  "lanes n p blk = map (\<lambda>j. map (\<lambda>k. blk ! (k * p + j)) [0..<n]) [0..<p]"

subsection \<open>The tensor operations the script calls\<close>

text \<open>
  \<^verbatim>\<open>tf.cast(hidden_param, dtype=tf.float32)\<close> on a list of Python integers. The list
  first becomes an integer tensor, which raises \<^verbatim>\<open>ValueError\<close> when an entry is outside
  the 64-bit signed range; then every entry is converted to the dtype. The dtype is the
  parameter \<open>dtype\<close>: \<open>dtype x\<close> is the scalar that the conversion of the integer \<open>x\<close>
  gives, which for \<^verbatim>\<open>tf.float32\<close> is the single-precision number nearest to \<open>x\<close>
  (\<open>ieee_float32\<close> below), not \<open>x\<close> itself when \<open>x\<close> has more than 24 significant
  bits.
\<close>

definition fits_int64 :: "int \<Rightarrow> bool" where
  "fits_int64 x \<longleftrightarrow> - (2 ^ 63) \<le> x \<and> x < 2 ^ 63"

definition tf_cast :: "int list \<Rightarrow> (int \<Rightarrow> 'a) \<Rightarrow> error + 'a tensor" where
  "tf_cast xs dtype =
     (if list_all fits_int64 xs then Inr (Tensor [length xs] (map dtype xs))
      else Inl ValueError)"

text \<open>\<^verbatim>\<open>observation[key]\<close> on a Python dict.\<close>

definition getitem :: "(string \<rightharpoonup> 'v) \<Rightarrow> string \<Rightarrow> error + 'v" where
  "getitem d k = (case d k of None \<Rightarrow> Inl (KeyError k) | Some v \<Rightarrow> Inr v)"

text \<open>\<^verbatim>\<open>tf.shape(t)[i]\<close>: the index must be below the rank.\<close>

definition tf_shape_at :: "'a tensor \<Rightarrow> nat \<Rightarrow> error + nat" where
  "tf_shape_at t i = (if i < length (shape t) then Inr (shape t ! i) else Inl InvalidArgumentError)"

text \<open>\<^verbatim>\<open>tf.expand_dims(t, axis)\<close> for an axis counted from the front: a new axis of
  size 1, the elements as they are.\<close>

definition tf_expand_dims :: "'a tensor \<Rightarrow> nat \<Rightarrow> error + 'a tensor" where
  "tf_expand_dims t axis =
     (if axis \<le> length (shape t)
      then Inr (Tensor (take axis (shape t) @ [1] @ drop axis (shape t)) (elems t))
      else Inl InvalidArgumentError)"

text \<open>\<^verbatim>\<open>tf.tile(t, multiples)\<close>: one multiple per axis; along each axis the (tiled)
  sub-tensors are repeated as a whole.\<close>

fun tile_elems :: "nat list \<Rightarrow> nat list \<Rightarrow> 'a list \<Rightarrow> 'a list" where
  "tile_elems (s # ss) (m # ms) xs =
     concat (replicate m (concat (map (tile_elems ss ms) (rows s (prod_list ss) xs))))"
| "tile_elems ss ms xs = xs"

definition tf_tile :: "'a tensor \<Rightarrow> nat list \<Rightarrow> error + 'a tensor" where
  "tf_tile t multiples =
     (if length multiples = length (shape t)
      then Inr (Tensor (map2 (*) (shape t) multiples) (tile_elems (shape t) multiples (elems t)))
      else Inl InvalidArgumentError)"

text \<open>\<^verbatim>\<open>tf.concat([a, b], axis=-1)\<close>: equal ranks, at least 1, and equal sizes on
  every axis but the last; each row of \<open>a\<close> is followed by the row of \<open>b\<close> at the
  same position.\<close>

definition tf_concat_last :: "'a tensor \<Rightarrow> 'a tensor \<Rightarrow> error + 'a tensor" where
  "tf_concat_last a b =
     (if shape a \<noteq> [] \<and> shape b \<noteq> [] \<and> butlast (shape a) = butlast (shape b)
      then (let k = prod_list (butlast (shape a)) in
        Inr (Tensor (butlast (shape a) @ [last (shape a) + last (shape b)])
               (concat (map2 (@) (rows k (last (shape a)) (elems a))
                                 (rows k (last (shape b)) (elems b))))))
      else Inl InvalidArgumentError)"

text \<open>The dot product of two vectors, summed from the left.\<close>

definition dot :: "'a::{zero,plus,times} list \<Rightarrow> 'a list \<Rightarrow> 'a" where
  "dot xs ys = foldl (\<lambda>acc (x, y). acc + x * y) 0 (zip xs ys)"

text \<open>\<^verbatim>\<open>tf.linalg.matvec(a, v)\<close> for a vector \<open>v\<close>: \<open>a\<close> has rank at least 2 and
  its last axis has the length of \<open>v\<close>; every row of \<open>a\<close> is multiplied with \<open>v\<close>.\<close>

definition tf_matvec :: "'a::{zero,plus,times} tensor \<Rightarrow> 'a tensor \<Rightarrow> error + 'a tensor" where
  "tf_matvec a v =
     (if 2 \<le> length (shape a) \<and> length (shape v) = 1 \<and> last (shape a) = hd (shape v)
      then Inr (Tensor (butlast (shape a))
                  (map (\<lambda>r. dot r (elems v))
                     (rows (prod_list (butlast (shape a))) (last (shape a)) (elems a))))
      else Inl InvalidArgumentError)"

text \<open>\<^verbatim>\<open>tf.reduce_max(t, axis=1)\<close>: the rank is at least 2; axis 1 disappears. The
  reduction starts from the least value of the scalar type, which is also the result over
  an empty axis.\<close>

definition reduce_max_list :: "'a::{linorder,order_bot} list \<Rightarrow> 'a" where
  "reduce_max_list xs = fold max xs bot"

definition tf_reduce_max_axis1 :: "'a::{linorder,order_bot} tensor \<Rightarrow> error + 'a tensor" where
  "tf_reduce_max_axis1 t =
     (case shape t of
        s0 # s1 # rest \<Rightarrow>
          (let p = prod_list rest in
           Inr (Tensor (s0 # rest)
                  (concat (map (\<lambda>blk. map reduce_max_list (lanes s1 p blk))
                             (rows s0 (s1 * p) (elems t))))))
      | _ \<Rightarrow> Inl InvalidArgumentError)"

text \<open>\<^verbatim>\<open>tf.argmax(t, axis=1, output_type=tf.int32)\<close>: the rank is at least 2 and
  axis 1 is not empty; the result is the first position of the greatest element, stored as
  a 32-bit signed integer.\<close>

fun argmax_from :: "nat \<Rightarrow> 'a::linorder \<Rightarrow> nat \<Rightarrow> 'a list \<Rightarrow> nat" where
  "argmax_from best_i best_v i [] = best_i"
| "argmax_from best_i best_v i (x # xs) =
     (if best_v < x then argmax_from i x (Suc i) xs else argmax_from best_i best_v (Suc i) xs)"

definition argmax_list :: "'a::linorder list \<Rightarrow> nat" where
  "argmax_list xs = (case xs of [] \<Rightarrow> 0 | x # rest \<Rightarrow> argmax_from 0 x 1 rest)"

definition int32_of_nat :: "nat \<Rightarrow> int" where
  "int32_of_nat i = (int i + 2 ^ 31) mod 2 ^ 32 - 2 ^ 31"

definition tf_argmax_axis1 :: "'a::linorder tensor \<Rightarrow> error + int tensor" where
  "tf_argmax_axis1 t =
     (case shape t of
        s0 # s1 # rest \<Rightarrow>
          (if s1 = 0 then Inl InvalidArgumentError
           else (let p = prod_list rest in
             Inr (Tensor (s0 # rest)
                    (concat (map (\<lambda>blk. map (\<lambda>lane. int32_of_nat (argmax_list lane)) (lanes s1 p blk))
                               (rows s0 (s1 * p) (elems t)))))))
      | _ \<Rightarrow> Inl InvalidArgumentError)"

section \<open>The reward oracle of the script\<close>

text \<open>
  The observation keys are constants of the module \<^verbatim>\<open>bandit_spec_utils\<close>, which is
  not part of the script: the module is a parameter of every function that reads one. So is
  the dtype \<^verbatim>\<open>tf.float32\<close>, the parameter \<open>float32\<close> of every function that casts
  to it.
\<close>

record bandit_spec_utils =
  GLOBAL_FEATURE_KEY :: string
  PER_ARM_FEATURE_KEY :: string

type_synonym 'a observation = "string \<rightharpoonup> 'a tensor"

text \<open>\<^verbatim>\<open>_all_rewards(observation, hidden_param)\<close>, statement by statement (a name
  cannot start with an underscore here, so the function is \<open>all_rewards\<close>).\<close>

definition all_rewards ::
  "(int \<Rightarrow> 'a) \<Rightarrow> bandit_spec_utils \<Rightarrow> 'a::{zero,plus,times} observation \<Rightarrow> int list
     \<Rightarrow> error + 'a tensor" where
  "all_rewards float32 u observation hidden_param =
     (bind_result (tf_cast hidden_param float32) (\<lambda>hidden_param.
      bind_result (getitem observation (GLOBAL_FEATURE_KEY u)) (\<lambda>global_obs.
      bind_result (getitem observation (PER_ARM_FEATURE_KEY u)) (\<lambda>per_arm_obs.
      bind_result (tf_shape_at per_arm_obs 1) (\<lambda>num_actions.
      bind_result (tf_expand_dims global_obs 1) (\<lambda>expanded.
      bind_result (tf_tile expanded [1, num_actions, 1]) (\<lambda>tiled_global.
      bind_result (tf_concat_last tiled_global per_arm_obs) (\<lambda>concatenated.
      tf_matvec concatenated hidden_param))))))))"

definition optimal_reward ::
  "(int \<Rightarrow> 'a) \<Rightarrow> bandit_spec_utils \<Rightarrow> 'a::{zero,plus,times,linorder,order_bot} observation
     \<Rightarrow> int list \<Rightarrow> error + 'a tensor" where
  "optimal_reward float32 u observation hidden_param =
     bind_result (all_rewards float32 u observation hidden_param) tf_reduce_max_axis1"

definition optimal_action ::
  "(int \<Rightarrow> 'a) \<Rightarrow> bandit_spec_utils \<Rightarrow> 'a::{zero,plus,times,linorder} observation
     \<Rightarrow> int list \<Rightarrow> error + int tensor" where
  "optimal_action float32 u observation hidden_param =
     bind_result (all_rewards float32 u observation hidden_param) tf_argmax_axis1"

subsection \<open>Reading tensors by index\<close>

text \<open>
  Row-major positions, for stating what the functions compute: \<open>vec_at2 t b\<close> is the
  vector \<open>t[b, :]\<close> of a rank-2 tensor, \<open>vec_at3 t b i\<close> the vector \<open>t[b, i, :]\<close> of a
  rank-3 tensor, \<open>elem_at2 t b i\<close> the element \<open>t[b, i]\<close> of a rank-2 tensor.
\<close>

definition vec_at2 :: "'a tensor \<Rightarrow> nat \<Rightarrow> 'a list" where
  "vec_at2 t b = take (shape t ! 1) (drop (b * (shape t ! 1)) (elems t))"

definition vec_at3 :: "'a tensor \<Rightarrow> nat \<Rightarrow> nat \<Rightarrow> 'a list" where
  "vec_at3 t b i =
     take (shape t ! 2) (drop ((b * (shape t ! 1) + i) * (shape t ! 2)) (elems t))"

definition elem_at2 :: "'a tensor \<Rightarrow> nat \<Rightarrow> nat \<Rightarrow> 'a" where
  "elem_at2 t b i = elems t ! (b * (shape t ! 1) + i)"

text \<open>
  A valid observation: the dict holds the global features \<open>g\<close> of shape \<open>[B, G]\<close> and
  the per-arm features \<open>a\<close> of shape \<open>[B, n, A]\<close>, for batch size \<open>B\<close>, \<open>n\<close> arms
  and feature dimensions \<open>G\<close> and \<open>A\<close>.
\<close>

definition valid_observation ::
  "bandit_spec_utils \<Rightarrow> 'a observation \<Rightarrow> 'a tensor \<Rightarrow> 'a tensor
     \<Rightarrow> nat \<Rightarrow> nat \<Rightarrow> nat \<Rightarrow> nat \<Rightarrow> bool" where
  "valid_observation u obs g a B n G A \<longleftrightarrow>
     obs (GLOBAL_FEATURE_KEY u) = Some g \<and> obs (PER_ARM_FEATURE_KEY u) = Some a \<and>
     shape g = [B, G] \<and> shape a = [B, n, A] \<and> wf_tensor g \<and> wf_tensor a"

text \<open>The feature vector of every (batch element, arm) pair, in row-major order.\<close>

definition feature_rows :: "'a tensor \<Rightarrow> 'a tensor \<Rightarrow> nat \<Rightarrow> nat \<Rightarrow> nat \<Rightarrow> nat \<Rightarrow> 'a list list" where
  "feature_rows g a B n G A =
     map2 (@) (concat (map (replicate n) (rows B G (elems g)))) (rows (B * n) A (elems a))"

text \<open>The rewards of every (batch element, arm) pair, in row-major order.\<close>

definition reward_elems ::
  "'a::{zero,plus,times} tensor \<Rightarrow> 'a tensor \<Rightarrow> nat \<Rightarrow> nat \<Rightarrow> nat \<Rightarrow> nat \<Rightarrow> 'a list \<Rightarrow> 'a list" where
  "reward_elems g a B n G A h = map (\<lambda>r. dot r h) (feature_rows g a B n G A)"

section \<open>Floating-point numbers\<close>

text \<open>
  The numbers of a binary floating-point format other than NaN: the two infinities, and
  \<open>Fin q\<close> for the number with the rational value \<open>q\<close> (the two zeros are one number).
  Where the arithmetic of the format gives NaN (the sum of opposite infinities, zero times
  an infinity) the model gives no particular value.
\<close>

datatype ieee = NegInf | Fin rat | PosInf

text \<open>Rounding a rational to the nearest integer, a tie to the even one.\<close>

definition round_half_even :: "rat \<Rightarrow> int" where
  "round_half_even q =
     (let f = \<lfloor>q\<rfloor>; d = q - of_int f
      in if d < 1 / 2 then f else if 1 / 2 < d then f + 1 else if even f then f else f + 1)"

text \<open>The exponent \<open>e\<close> of a positive rational \<open>x\<close>: \<open>2 ^ e \<le> x < 2 ^ (e + 1)\<close>.\<close>

definition floor_log2 :: "rat \<Rightarrow> int" where
  "floor_log2 x =
     (case quotient_of x of (a, b) \<Rightarrow>
        let k = bitlen a - bitlen b
        in if of_int b * 2 powi k \<le> (of_int a :: rat) then k else k - 1)"

text \<open>
  Rounding to the format with \<open>p\<close> significant bits and exponents from \<open>emin\<close> to
  \<open>emax\<close>: to the nearest number of the format, a tie to the one with the even
  significand; below \<open>2 ^ emin\<close> the spacing stays that of the subnormal numbers; a result
  beyond the greatest finite number is an infinity.
\<close>

definition round_ieee :: "nat \<Rightarrow> int \<Rightarrow> int \<Rightarrow> rat \<Rightarrow> ieee" where
  "round_ieee p emin emax x =
     (if x = 0 then Fin 0
      else let e = max (floor_log2 \<bar>x\<bar>) emin;
               ulp = 2 powi (e - (int p - 1));
               r = of_int (round_half_even (x / ulp)) * ulp
           in if 2 powi (emax + 1) \<le> r then PosInf
              else if r \<le> - (2 powi (emax + 1)) then NegInf
              else Fin r)"

definition round32 :: "rat \<Rightarrow> ieee" where
  "round32 = round_ieee 24 (- 126) 127"

definition round64 :: "rat \<Rightarrow> ieee" where
  "round64 = round_ieee 53 (- 1022) 1023"

fun is_zero :: "ieee \<Rightarrow> bool" where
  "is_zero (Fin a) = (a = 0)"
| "is_zero x = False"

fun is_negative :: "ieee \<Rightarrow> bool" where
  "is_negative NegInf = True"
| "is_negative (Fin a) = (a < 0)"
| "is_negative PosInf = False"

text \<open>Addition and multiplication: the exact result, rounded by \<open>rnd\<close>.\<close>

fun ieee_add :: "(rat \<Rightarrow> ieee) \<Rightarrow> ieee \<Rightarrow> ieee \<Rightarrow> ieee" where
  "ieee_add rnd (Fin a) (Fin b) = rnd (a + b)"
| "ieee_add rnd PosInf NegInf = undefined"
| "ieee_add rnd NegInf PosInf = undefined"
| "ieee_add rnd PosInf y = PosInf"
| "ieee_add rnd x PosInf = PosInf"
| "ieee_add rnd NegInf y = NegInf"
| "ieee_add rnd x NegInf = NegInf"

fun ieee_mul :: "(rat \<Rightarrow> ieee) \<Rightarrow> ieee \<Rightarrow> ieee \<Rightarrow> ieee" where
  "ieee_mul rnd (Fin a) (Fin b) = rnd (a * b)"
| "ieee_mul rnd x y =
     (if is_zero x \<or> is_zero y then undefined
      else if is_negative x = is_negative y then PosInf else NegInf)"

fun ieee_le :: "ieee \<Rightarrow> ieee \<Rightarrow> bool" where
  "ieee_le NegInf y = True"
| "ieee_le x PosInf = True"
| "ieee_le (Fin a) (Fin b) = (a \<le> b)"
| "ieee_le x y = False"

text \<open>
  Single precision (\<^verbatim>\<open>float32\<close>, 24 significant bits) and double precision
  (\<^verbatim>\<open>float64\<close>, 53 significant bits). \<open>float32\<close> is a scalar type for the tensors
  above: it has \<open>0\<close>, \<open>+\<close> and \<open>*\<close>, and it is linearly ordered with minus infinity as
  its least element.
\<close>

datatype float32 = Float32 (value32: ieee)

datatype float64 = Float64 (value64: ieee)

instantiation float32 :: "{zero, one, plus, times, linorder, order_bot}"
begin

definition zero_float32 :: float32 where
  "zero_float32 = Float32 (Fin 0)"

definition one_float32 :: float32 where
  "one_float32 = Float32 (Fin 1)"

definition plus_float32 :: "float32 \<Rightarrow> float32 \<Rightarrow> float32" where
  "plus_float32 x y = Float32 (ieee_add round32 (value32 x) (value32 y))"

definition times_float32 :: "float32 \<Rightarrow> float32 \<Rightarrow> float32" where
  "times_float32 x y = Float32 (ieee_mul round32 (value32 x) (value32 y))"

definition less_eq_float32 :: "float32 \<Rightarrow> float32 \<Rightarrow> bool" where
  "less_eq_float32 x y = ieee_le (value32 x) (value32 y)"

definition less_float32 :: "float32 \<Rightarrow> float32 \<Rightarrow> bool" where
  "less_float32 x y = (ieee_le (value32 x) (value32 y) \<and> \<not> ieee_le (value32 y) (value32 x))"

definition bot_float32 :: float32 where
  "bot_float32 = Float32 NegInf"

instance
proof
  fix x y z :: float32
  show "(x < y) = (x \<le> y \<and> \<not> y \<le> x)"
    by (simp add: less_float32_def less_eq_float32_def)
  show "x \<le> x"
    by (cases x; cases "value32 x") (simp_all add: less_eq_float32_def)
  show "x \<le> y \<Longrightarrow> y \<le> z \<Longrightarrow> x \<le> z"
    by (cases "value32 x"; cases "value32 y"; cases "value32 z")
      (simp_all add: less_eq_float32_def)
  show "x \<le> y \<Longrightarrow> y \<le> x \<Longrightarrow> x = y"
    by (cases x; cases y; cases "value32 x"; cases "value32 y")
      (simp_all add: less_eq_float32_def)
  show "x \<le> y \<or> y \<le> x"
    by (cases "value32 x"; cases "value32 y") (auto simp: less_eq_float32_def)
  show "bot \<le> x"
    by (simp add: less_eq_float32_def bot_float32_def)
qed

end

instantiation float64 :: "{zero, one, plus, times}"
begin

definition zero_float64 :: float64 where
  "zero_float64 = Float64 (Fin 0)"

definition one_float64 :: float64 where
  "one_float64 = Float64 (Fin 1)"

definition plus_float64 :: "float64 \<Rightarrow> float64 \<Rightarrow> float64" where
  "plus_float64 x y = Float64 (ieee_add round64 (value64 x) (value64 y))"

definition times_float64 :: "float64 \<Rightarrow> float64 \<Rightarrow> float64" where
  "times_float64 x y = Float64 (ieee_mul round64 (value64 x) (value64 y))"

instance ..

end

text \<open>
  The conversions: of an integer to single precision (the dtype \<^verbatim>\<open>tf.float32\<close> of
  \<^verbatim>\<open>tf.cast\<close>, and \<^verbatim>\<open>astype(np.float32)\<close>) and to double precision, both rounding;
  and of a single-precision number to double precision, which keeps it.
\<close>

definition ieee_float32 :: "int \<Rightarrow> float32" where
  "ieee_float32 n = Float32 (round32 (of_int n))"

definition float64_of_int :: "int \<Rightarrow> float64" where
  "float64_of_int n = Float64 (round64 (of_int n))"

definition float64_of_float32 :: "float32 \<Rightarrow> float64" where
  "float64_of_float32 x = Float64 (value32 x)"

text \<open>The dot product of the specification's formula: exact, on rationals.\<close>

definition exact_dot :: "rat list \<Rightarrow> rat list \<Rightarrow> rat" where
  "exact_dot xs ys = sum_list (map2 (*) xs ys)"

section \<open>The script\<close>

definition BATCH_SIZE :: nat where "BATCH_SIZE = 16"
definition NUM_ACTIONS :: nat where "NUM_ACTIONS = 7"
definition HIDDEN_PARAM :: "int list" where
  "HIDDEN_PARAM = [0, 1, 2, 3, 4, 5, 6, 7, 8]"
definition TRAINING_LOOPS :: nat where "TRAINING_LOOPS = 2000"
definition STEPS_PER_LOOP :: nat where "STEPS_PER_LOOP = 2"
definition EPSILON :: real where "EPSILON = 0.01"
definition LR :: real where "LR = 0.05"

subsection \<open>Flags\<close>

text \<open>
  \<^verbatim>\<open>flags.DEFINE_enum(name, default, enum_values, help)\<close>: the flag's value is the
  default when the command line does not give it, and a given value is accepted when it is
  one of the enum values.
\<close>

record enum_flag =
  flag_name :: string
  flag_default :: string
  flag_enum_values :: "string list"

definition network_flag :: enum_flag where
  "network_flag = \<lparr>flag_name = ''network'', flag_default = ''commontower'',
     flag_enum_values = [''commontower'', ''dotproduct'']\<rparr>"

definition parse_enum_flag :: "enum_flag \<Rightarrow> string option \<Rightarrow> error + string" where
  "parse_enum_flag f given =
     (case given of
        None \<Rightarrow> Inr (flag_default f)
      | Some v \<Rightarrow> if v \<in> set (flag_enum_values f) then Inr v else Inl (IllegalFlagValueError v))"

text \<open>
  \<^verbatim>\<open>flags.DEFINE_bool(name, default, help)\<close>: a value given as \<^verbatim>\<open>--name=value\<close> is
  read without regard to case; \<^verbatim>\<open>true\<close>, \<^verbatim>\<open>t\<close> and \<^verbatim>\<open>1\<close> are true,
  \<^verbatim>\<open>false\<close>, \<^verbatim>\<open>f\<close> and \<^verbatim>\<open>0\<close> are false, anything else is rejected
  (\<^verbatim>\<open>--name\<close> and \<^verbatim>\<open>--noname\<close> stand for \<^verbatim>\<open>true\<close> and \<^verbatim>\<open>false\<close>).
\<close>

definition lower_char :: "char \<Rightarrow> char" where
  "lower_char c =
     (let n = (of_char c :: nat) in if 65 \<le> n \<and> n \<le> 90 then char_of (n + 32) else c)"

definition parse_bool_flag :: "bool \<Rightarrow> string option \<Rightarrow> error + bool" where
  "parse_bool_flag dflt given =
     (case given of
        None \<Rightarrow> Inr dflt
      | Some v \<Rightarrow>
          if map lower_char v \<in> set [''true'', ''t'', ''1''] then Inr True
          else if map lower_char v \<in> set [''false'', ''f'', ''0''] then Inr False
          else Inl (IllegalFlagValueError v))"

record flags =
  FLAGS_root_dir :: "string option"
  FLAGS_network :: string
  FLAGS_drop_arm_obs :: bool

text \<open>
  The command line gives each of the three flags of the script a value or leaves it out
  (other arguments are outside the model). The default of \<^verbatim>\<open>root_dir\<close> is the
  environment variable \<^verbatim>\<open>TEST_UNDECLARED_OUTPUTS_DIR\<close>, the parameter \<open>getenv\<close>.
\<close>

record command_line =
  arg_root_dir :: "string option"
  arg_network :: "string option"
  arg_drop_arm_obs :: "string option"

definition parse_flags :: "string option \<Rightarrow> command_line \<Rightarrow> error + flags" where
  "parse_flags getenv argv =
     bind_result (parse_enum_flag network_flag (arg_network argv)) (\<lambda>network.
     bind_result (parse_bool_flag False (arg_drop_arm_obs argv)) (\<lambda>drop_arm_obs.
     Inr \<lparr>FLAGS_root_dir = (case arg_root_dir argv of None \<Rightarrow> getenv | Some dir \<Rightarrow> Some dir),
          FLAGS_network = network,
          FLAGS_drop_arm_obs = drop_arm_obs\<rparr>))"

text \<open>
  \<^verbatim>\<open>app.run(main)\<close>: the flag library parses the command line; on a flag it rejects it
  prints the error and calls \<^verbatim>\<open>sys.exit(1)\<close>, without calling \<^verbatim>\<open>main\<close>. Otherwise
  it calls \<^verbatim>\<open>main\<close>: a \<^verbatim>\<open>UsageError\<close> of \<^verbatim>\<open>main\<close> it reports and turns into
  \<^verbatim>\<open>sys.exit\<close> with the exit code of the error, every other exception of
  \<^verbatim>\<open>main\<close> it lets pass. When \<^verbatim>\<open>main\<close> returns, the process ends with exit status
  0; the model then gives what \<^verbatim>\<open>main\<close> returned.
\<close>

definition app_run :: "(flags \<Rightarrow> error + 'x) \<Rightarrow> string option \<Rightarrow> command_line \<Rightarrow> error + 'x" where
  "app_run main_fn getenv argv =
     (case parse_flags getenv argv of
        Inl e \<Rightarrow> Inl (SystemExit 1)
      | Inr FLAGS \<Rightarrow>
          (case main_fn FLAGS of
             Inl (UsageError exitcode) \<Rightarrow> Inl (SystemExit exitcode)
           | result \<Rightarrow> result))"

subsection \<open>The reward function of the environment\<close>

text \<open>
  \<^verbatim>\<open>np.dot(x, theta)\<close> on a single-precision vector and a list of Python integers: the
  lengths must agree; the array library converts both to double precision (the vector
  exactly, the integers with rounding) and computes the dot product in double precision.
  The model covers lists that the array library holds as 64-bit integers.
\<close>

definition np_dot :: "float32 list \<Rightarrow> int list \<Rightarrow> error + float64" where
  "np_dot x y =
     (if length x \<noteq> length y then Inl ValueError
      else if list_all fits_int64 y
        then Inr (dot (map float64_of_float32 x) (map float64_of_int y))
      else undefined)"

text \<open>\<^verbatim>\<open>np.random.normal(mu, sigma)\<close> draws from the normal distribution with mean
  \<open>mu\<close>; the model returns the distribution it draws from.\<close>

datatype 'a distribution = Normal (mean: 'a) (scale: 'a)

datatype linear_normal_reward = LinearNormalReward (theta: "int list")

definition call_reward :: "linear_normal_reward \<Rightarrow> float32 list \<Rightarrow> error + float64 distribution" where
  "call_reward self x = bind_result (np_dot x (theta self)) (\<lambda>mu. Inr (Normal mu 1))"

text \<open>
  The context sampling functions draw integers (\<^verbatim>\<open>np.random.randint(low, high, [k])\<close>:
  \<open>k\<close> integers from \<open>low\<close> up to but not \<open>high\<close>) and convert them with
  \<^verbatim>\<open>astype(np.float32)\<close>; the model gives the vectors they can return.
\<close>

definition global_context_sampling_fn :: "(int \<Rightarrow> 'a) \<Rightarrow> 'a list set" where
  "global_context_sampling_fn float32 =
     {map float32 ks | ks. length ks = 4 \<and> (\<forall>k\<in>set ks. - 10 \<le> k \<and> k < 10)}"

definition arm_context_sampling_fn :: "(int \<Rightarrow> 'a) \<Rightarrow> 'a list set" where
  "arm_context_sampling_fn float32 =
     {map float32 ks | ks. length ks = 5 \<and> (\<forall>k\<in>set ks. - 2 \<le> k \<and> k < 3)}"

subsection \<open>Trajectories and the transformation that drops the arm features\<close>

text \<open>
  The trajectory class is not part of the script. The script reads its \<open>observation\<close>
  field, a dict; all its other fields are one field of any type.
\<close>

record ('v, 'r) trajectory =
  observation :: "string \<rightharpoonup> 'v"
  other_fields :: 'r

text \<open>\<^verbatim>\<open>del d[key]\<close> on a Python dict.\<close>

definition delitem :: "(string \<rightharpoonup> 'v) \<Rightarrow> string \<Rightarrow> error + (string \<rightharpoonup> 'v)" where
  "delitem d k = (case d k of None \<Rightarrow> Inl (KeyError k) | Some v \<Rightarrow> Inr (d(k := None)))"

text \<open>\<^verbatim>\<open>drop_arm_feature_fn(traj)\<close>: the deep copy is a value equal to \<open>traj\<close>, and the
  deletion changes the copy only.\<close>

definition drop_arm_feature_fn ::
  "bandit_spec_utils \<Rightarrow> ('v, 'r) trajectory \<Rightarrow> error + ('v, 'r) trajectory" where
  "drop_arm_feature_fn u traj =
     (let transformed_traj = traj in
      bind_result (delitem (observation transformed_traj) (PER_ARM_FEATURE_KEY u))
        (\<lambda>d. Inr (transformed_traj\<lparr>observation := d\<rparr>)))"

subsection \<open>The objects the script builds\<close>

text \<open>
  The environment, the networks, the agent, the metrics and the trainer belong to the
  framework. An object built by the framework is represented by the constructor call that
  built it, with the arguments the script passed.
\<close>

record 'a py_environment =
  env_global_context_sampling_fn :: "'a list set"
  env_arm_context_sampling_fn :: "'a list set"
  env_num_actions :: nat
  env_reward_fn :: linear_normal_reward
  env_batch_size :: nat

datatype 'a tf_py_environment = TFPyEnvironment (py_env: "'a py_environment")

datatype 'a env_spec =
    observation_spec "'a tf_py_environment"
  | time_step_spec "'a tf_py_environment"
  | action_spec "'a tf_py_environment"

datatype 'a network =
    create_feed_forward_common_tower_network "'a env_spec" "nat list" "nat list" "nat list"
  | create_feed_forward_dot_product_network "'a env_spec" "nat list" "nat list"

datatype optimizer = AdamOptimizer real

datatype info_field = PREDICTED_REWARDS_MEAN

record ('a, 'v, 'r) neural_epsilon_greedy_agent =
  agent_time_step_spec :: "'a env_spec"
  agent_action_spec :: "'a env_spec"
  agent_reward_network :: "'a network"
  agent_optimizer :: optimizer
  agent_epsilon :: real
  agent_accepts_per_arm_features :: bool
  agent_training_data_spec_transformation_fn ::
    "(('v, 'r) trajectory \<Rightarrow> error + ('v, 'r) trajectory) option"
  agent_emit_policy_info :: info_field

datatype 'a metric =
    RegretMetric "'a observation \<Rightarrow> error + 'a tensor"
  | SuboptimalArmsMetric "'a observation \<Rightarrow> error + int tensor"

record ('a, 'v, 'r) train_call =
  train_root_dir :: "string option"
  train_agent :: "('a, 'v, 'r) neural_epsilon_greedy_agent"
  train_environment :: "'a tf_py_environment"
  train_training_loops :: nat
  train_steps_per_loop :: nat
  train_additional_metrics :: "'a metric list"
  train_training_data_spec_transformation_fn ::
    "(('v, 'r) trajectory \<Rightarrow> error + ('v, 'r) trajectory) option"

text \<open>
  Every call into the framework can raise. Which calls raise, and what, is a parameter:
  \<open>lib c = Some e\<close> says that the call \<open>c\<close> raises \<open>e\<close>.
\<close>

datatype call =
    Call_enable_v2_behavior
  | Call_StationaryStochasticPerArmPyEnvironment
  | Call_TFPyEnvironment
  | Call_observation_spec
  | Call_create_feed_forward_common_tower_network
  | Call_create_feed_forward_dot_product_network
  | Call_time_step_spec
  | Call_action_spec
  | Call_AdamOptimizer
  | Call_NeuralEpsilonGreedyAgent
  | Call_RegretMetric
  | Call_SuboptimalArmsMetric
  | Call_train

definition lib_call :: "(call \<Rightarrow> error option) \<Rightarrow> call \<Rightarrow> 'x \<Rightarrow> error + 'x" where
  "lib_call lib c x = (case lib c of None \<Rightarrow> Inr x | Some e \<Rightarrow> Inl e)"

subsection \<open>main\<close>

text \<open>
  \<^verbatim>\<open>main\<close>, statement by statement; the arguments of a call are evaluated from left to
  right. With a network flag that is neither of the two names no branch binds
  \<^verbatim>\<open>network\<close>, and reading it for the agent raises. The model returns the call of the
  trainer that ends \<^verbatim>\<open>main\<close>.
\<close>

definition select_network ::
  "(call \<Rightarrow> error option) \<Rightarrow> flags \<Rightarrow> 'a env_spec \<Rightarrow> error + 'a network option" where
  "select_network lib FLAGS obs_spec =
     (if FLAGS_network FLAGS = ''commontower'' then
        bind_result (lib_call lib Call_create_feed_forward_common_tower_network
          (create_feed_forward_common_tower_network obs_spec [4, 3] [3, 4] [4, 2]))
          (\<lambda>network. Inr (Some network))
      else if FLAGS_network FLAGS = ''dotproduct'' then
        bind_result (lib_call lib Call_create_feed_forward_dot_product_network
          (create_feed_forward_dot_product_network obs_spec [4, 3, 6] [3, 4, 6]))
          (\<lambda>network. Inr (Some network))
      else Inr None)"

definition select_drop_arm_feature_fn ::
  "bandit_spec_utils \<Rightarrow> flags \<Rightarrow> (('v, 'r) trajectory \<Rightarrow> error + ('v, 'r) trajectory) option" where
  "select_drop_arm_feature_fn u FLAGS =
     (if FLAGS_drop_arm_obs FLAGS then Some (drop_arm_feature_fn u) else None)"

definition read_network :: "'a network option \<Rightarrow> error + 'a network" where
  "read_network network =
     (case network of None \<Rightarrow> Inl (UnboundLocalError ''network'') | Some n \<Rightarrow> Inr n)"

definition main ::
  "(int \<Rightarrow> 'a) \<Rightarrow> (call \<Rightarrow> error option) \<Rightarrow> bandit_spec_utils \<Rightarrow> flags
     \<Rightarrow> error + ('a::{zero,plus,times,linorder,order_bot}, 'v, 'r) train_call" where
  "main float32 lib u FLAGS =
     bind_result (lib_call lib Call_enable_v2_behavior ()) (\<lambda>_.
     let reward_fn = LinearNormalReward HIDDEN_PARAM in
     bind_result (lib_call lib Call_StationaryStochasticPerArmPyEnvironment
        \<lparr>env_global_context_sampling_fn = global_context_sampling_fn float32,
         env_arm_context_sampling_fn = arm_context_sampling_fn float32,
         env_num_actions = NUM_ACTIONS,
         env_reward_fn = reward_fn,
         env_batch_size = BATCH_SIZE\<rparr>) (\<lambda>env.
     bind_result (lib_call lib Call_TFPyEnvironment (TFPyEnvironment env)) (\<lambda>environment.
     bind_result (lib_call lib Call_observation_spec (observation_spec environment)) (\<lambda>obs_spec.
     bind_result (select_network lib FLAGS obs_spec) (\<lambda>network.
     let drop_arm_feature_fn = select_drop_arm_feature_fn u FLAGS in
     bind_result (lib_call lib Call_time_step_spec (time_step_spec environment)) (\<lambda>ts_spec.
     bind_result (lib_call lib Call_action_spec (action_spec environment)) (\<lambda>a_spec.
     bind_result (read_network network) (\<lambda>network.
     bind_result (lib_call lib Call_AdamOptimizer (AdamOptimizer LR)) (\<lambda>adam.
     bind_result (lib_call lib Call_NeuralEpsilonGreedyAgent
        \<lparr>agent_time_step_spec = ts_spec,
         agent_action_spec = a_spec,
         agent_reward_network = network,
         agent_optimizer = adam,
         agent_epsilon = EPSILON,
         agent_accepts_per_arm_features = True,
         agent_training_data_spec_transformation_fn = drop_arm_feature_fn,
         agent_emit_policy_info = PREDICTED_REWARDS_MEAN\<rparr>) (\<lambda>agent.
     let optimal_reward_fn = (\<lambda>observation. optimal_reward float32 u observation HIDDEN_PARAM);
         optimal_action_fn = (\<lambda>observation. optimal_action float32 u observation HIDDEN_PARAM) in
     bind_result (lib_call lib Call_RegretMetric (RegretMetric optimal_reward_fn)) (\<lambda>regret_metric.
     bind_result (lib_call lib Call_SuboptimalArmsMetric (SuboptimalArmsMetric optimal_action_fn))
       (\<lambda>suboptimal_arms_metric.
     lib_call lib Call_train
        \<lparr>train_root_dir = FLAGS_root_dir FLAGS,
         train_agent = agent,
         train_environment = environment,
         train_training_loops = TRAINING_LOOPS,
         train_steps_per_loop = STEPS_PER_LOOP,
         train_additional_metrics = [regret_metric, suboptimal_arms_metric],
         train_training_data_spec_transformation_fn = drop_arm_feature_fn\<rparr>))))))))))))"

text \<open>The framework calls that \<^verbatim>\<open>main\<close> makes, in the order it makes them.\<close>

definition main_calls :: "flags \<Rightarrow> call list" where
  "main_calls FLAGS =
     [Call_enable_v2_behavior, Call_StationaryStochasticPerArmPyEnvironment,
      Call_TFPyEnvironment, Call_observation_spec] @
     (if FLAGS_network FLAGS = ''commontower''
        then [Call_create_feed_forward_common_tower_network]
      else if FLAGS_network FLAGS = ''dotproduct''
        then [Call_create_feed_forward_dot_product_network]
      else []) @
     [Call_time_step_spec, Call_action_spec] @
     (if FLAGS_network FLAGS = ''commontower'' \<or> FLAGS_network FLAGS = ''dotproduct''
        then [Call_AdamOptimizer, Call_NeuralEpsilonGreedyAgent, Call_RegretMetric,
              Call_SuboptimalArmsMetric, Call_train]
      else [])"

text \<open>The script: \<^verbatim>\<open>app.run(main)\<close>.\<close>

definition script ::
  "(int \<Rightarrow> 'a) \<Rightarrow> (call \<Rightarrow> error option) \<Rightarrow> bandit_spec_utils \<Rightarrow> string option \<Rightarrow> command_line
     \<Rightarrow> error + ('a::{zero,plus,times,linorder,order_bot}, 'v, 'r) train_call" where
  "script float32 lib u getenv argv = app_run (main float32 lib u) getenv argv"

text \<open>The exception of the first call that raises, in a sequence of calls.\<close>

fun first_failure :: "(call \<Rightarrow> error option) \<Rightarrow> call list \<Rightarrow> error option" where
  "first_failure lib [] = None"
| "first_failure lib (c # cs) =
     (case lib c of Some e \<Rightarrow> Some e | None \<Rightarrow> first_failure lib cs)"

subsection \<open>The scenario of the specification\<close>

definition scenario_utils :: bandit_spec_utils where
  "scenario_utils = \<lparr>GLOBAL_FEATURE_KEY = ''global'', PER_ARM_FEATURE_KEY = ''per_arm''\<rparr>"

definition scenario_global :: "'a::{zero,one} tensor" where
  "scenario_global = Tensor [1, 2] [1, 0]"

definition scenario_per_arm :: "'a::{zero,one} tensor" where
  "scenario_per_arm = Tensor [1, 2, 2] [1, 0, 0, 1]"

definition scenario_observation :: "'a::{zero,one} observation" where
  "scenario_observation = [''global'' \<mapsto> scenario_global, ''per_arm'' \<mapsto> scenario_per_arm]"

text \<open>
  An observation that the script's environment can produce (4 global and 5 per-arm
  features, here one batch element with two arms), flags and a framework in which no call
  raises, and a trajectory over the scenario's observation.
\<close>

definition environment_global :: "float32 tensor" where
  "environment_global = Tensor [1, 4] (map ieee_float32 [- 10, 9, 0, 3])"

definition environment_per_arm :: "float32 tensor" where
  "environment_per_arm = Tensor [1, 2, 5] (map ieee_float32 [- 2, 2, 1, 0, - 1, 2, 2, 2, 2, 2])"

definition environment_observation :: "float32 observation" where
  "environment_observation =
     [''global'' \<mapsto> environment_global, ''per_arm'' \<mapsto> environment_per_arm]"

definition example_flags :: flags where
  "example_flags = \<lparr>FLAGS_root_dir = None, FLAGS_network = ''dotproduct'',
     FLAGS_drop_arm_obs = True\<rparr>"

definition no_failure :: "call \<Rightarrow> error option" where
  "no_failure c = None"

definition example_trajectory :: "(nat tensor, string) trajectory" where
  "example_trajectory = \<lparr>observation = scenario_observation, other_fields = ''reward''\<rparr>"

text \<open>
  An observation with one arm whose reward shows the rounding of the hidden parameter, an
  observation without the per-arm entry, a framework whose trainer raises, a command line
  that gives the example flags, and a command line with a network outside the enum.
\<close>

definition rounding_observation :: "float32 observation" where
  "rounding_observation =
     [''global'' \<mapsto> Tensor [1, 1] [Float32 (Fin 1)],
      ''per_arm'' \<mapsto> Tensor [1, 1, 1] [Float32 (Fin 0)]]"

definition observation_without_arms :: "nat observation" where
  "observation_without_arms = [''global'' \<mapsto> scenario_global]"

definition failing_trainer :: "call \<Rightarrow> error option" where
  "failing_trainer c = (if c = Call_train then Some (LibraryError ''train'') else None)"

definition example_command_line :: command_line where
  "example_command_line =
     \<lparr>arg_root_dir = None, arg_network = Some ''dotproduct'', arg_drop_arm_obs = Some ''True''\<rparr>"

definition malformed_command_line :: command_line where
  "malformed_command_line =
     \<lparr>arg_root_dir = None, arg_network = Some ''foo'', arg_drop_arm_obs = None\<rparr>"

section \<open>Facts about rows of row-major data\<close>

lemma length_rows: "length (rows k w xs) = k"
  by (induction k arbitrary: xs) auto

lemma rows_concat:
  "\<forall>x\<in>set xss. length x = w \<Longrightarrow> rows (length xss) w (concat xss) = xss"
  by (induction xss) auto

lemma rows_nth: "i < k \<Longrightarrow> rows k w xs ! i = take w (drop (i * w) xs)"
proof (induction k arbitrary: xs i)
  case 0
  then show ?case by simp
next
  case (Suc k)
  show ?case
  proof (cases i)
    case 0
    then show ?thesis by simp
  next
    case (Suc j)
    with Suc.prems have "j < k" by simp
    from Suc.IH [OF this, of "drop w xs"] Suc show ?thesis
      by (simp add: add.commute)
  qed
qed

lemma rows_lengths: "length xs = k * w \<Longrightarrow> r \<in> set (rows k w xs) \<Longrightarrow> length r = w"
proof (induction k arbitrary: xs)
  case 0
  then show ?case by simp
next
  case (Suc k)
  have "length (drop w xs) = k * w" using Suc.prems by simp
  from Suc.IH [OF this] Suc.prems show ?case by auto
qed

lemma concat_rows: "length xs = k * w \<Longrightarrow> concat (rows k w xs) = xs"
proof (induction k arbitrary: xs)
  case 0
  then show ?case by simp
next
  case (Suc k)
  have "length (drop w xs) = k * w" using Suc.prems by simp
  from Suc.IH [OF this] show ?case by simp
qed

lemma tile_elems_scalar: "map (tile_elems [] ms) xss = xss"
  by (induction xss) auto

lemma tile_elems_row: "length row = G \<Longrightarrow> tile_elems [G] [1] row = row"
  by (simp add: tile_elems_scalar concat_rows)

lemma tile_elems_block:
  "length blk = G \<Longrightarrow> tile_elems [1, G] [n, 1] blk = concat (replicate n blk)"
  using tile_elems_row [of blk G] by simp

lemma concat_replicate_rows:
  "concat (map (\<lambda>blk. concat (replicate n blk)) xss) = concat (concat (map (replicate n) xss))"
  by (induction xss) auto

lemma tile_elems_global:
  assumes "length xs = B * G"
  shows "tile_elems [B, 1, G] [1, n, 1] xs = concat (concat (map (replicate n) (rows B G xs)))"
proof -
  have m: "map (tile_elems [1, G] [n, 1]) (rows B G xs)
      = map (\<lambda>blk. concat (replicate n blk)) (rows B G xs)"
    by (rule map_cong [OF refl]) (rule tile_elems_block, rule rows_lengths [OF assms])
  have "tile_elems [B, 1, G] [1, n, 1] xs =
      concat (replicate 1 (concat (map (tile_elems [1, G] [n, 1]) (rows B (prod_list [1, G]) xs))))"
    by (rule tile_elems.simps(1))
  also have "\<dots> = concat (map (\<lambda>blk. concat (replicate n blk)) (rows B G xs))"
    unfolding m [symmetric] by simp
  finally show ?thesis by (simp only: concat_replicate_rows)
qed

lemma length_concat_replicate: "length (concat (map (replicate n) xss)) = length xss * n"
  by (induction xss) auto

lemma set_concat_replicate: "x \<in> set (concat (map (replicate n) xss)) \<Longrightarrow> x \<in> set xss"
  by (induction xss) auto

lemma nth_concat_replicate:
  "b < length xss \<Longrightarrow> i < n \<Longrightarrow> concat (map (replicate n) xss) ! (b * n + i) = xss ! b"
proof (induction xss arbitrary: b)
  case Nil
  then show ?case by simp
next
  case (Cons x xss)
  show ?case
  proof (cases b)
    case 0
    with Cons.prems show ?thesis by (simp add: nth_append)
  next
    case (Suc c)
    with Cons.prems have "c < length xss" by simp
    from Cons.IH [OF this Cons.prems(2)] Suc show ?thesis
      by (simp add: nth_append add.assoc)
  qed
qed

lemma map2_append_lengths:
  "\<forall>x\<in>set xs. length x = G \<Longrightarrow> \<forall>y\<in>set ys. length y = A \<Longrightarrow>
   \<forall>z\<in>set (map2 (@) xs ys). length z = G + A"
  by (auto dest: set_zip_leftD set_zip_rightD simp: in_set_zip)

lemma flat_index: "b < B \<Longrightarrow> i < n \<Longrightarrow> b * n + i < B * (n::nat)"
proof -
  assume b: "b < B" and i: "i < n"
  have "b * n + i < b * n + n" using i by simp
  also have "\<dots> = Suc b * n" by simp
  also have "\<dots> \<le> B * n" using b by (intro mult_le_mono1) simp
  finally show ?thesis .
qed

subsection \<open>The tensor operations at the shapes of a valid observation\<close>

lemma tf_tile_global:
  assumes "length xs = B * G"
  shows "tf_tile (Tensor [B, 1, G] xs) [1, n, 1]
    = Inr (Tensor [B, n, G] (concat (concat (map (replicate n) (rows B G xs)))))"
  by (simp add: tf_tile_def tile_elems_global [OF assms] del: tile_elems.simps One_nat_def)

lemma tf_concat_last_rows:
  assumes "shape a = [B, n, A]" and "length GS = B * n" and "\<forall>x\<in>set GS. length x = G"
  shows "tf_concat_last (Tensor [B, n, G] (concat GS)) a
      = Inr (Tensor [B, n, G + A] (concat (map2 (@) GS (rows (B * n) A (elems a)))))"
  using rows_concat [OF assms(3)] by (simp add: tf_concat_last_def assms(1,2))

lemma tf_matvec_rows:
  assumes "length F = B * n" and "\<forall>x\<in>set F. length x = D" and "length h = D"
  shows "tf_matvec (Tensor [B, n, D] (concat F)) (Tensor [length h] h)
      = Inr (Tensor [B, n] (map (\<lambda>r. dot r h) F))"
  using rows_concat [OF assms(2)] by (simp add: tf_matvec_def assms(1,3))

lemma tf_cast_fits:
  "list_all fits_int64 h \<Longrightarrow> tf_cast h float32 = Inr (Tensor [length (map float32 h)] (map float32 h))"
  by (simp add: tf_cast_def)

lemma all_rewards_cast_raises:
  "\<not> list_all fits_int64 h \<Longrightarrow> all_rewards float32 u obs h = Inl ValueError"
  by (simp add: all_rewards_def tf_cast_def)

lemma length_feature_rows:
  "length (feature_rows g a B n G A) = B * n"
  by (simp add: feature_rows_def length_concat_replicate length_rows)

lemma feature_rows_widths:
  assumes v: "valid_observation u obs g a B n G A"
  shows "\<forall>x\<in>set (feature_rows g a B n G A). length x = G + A"
proof -
  from v have lg: "length (elems g) = B * G" and la: "length (elems a) = B * n * A"
    by (simp_all add: valid_observation_def wf_tensor_def)
  have wGS: "\<forall>x\<in>set (concat (map (replicate n) (rows B G (elems g)))). length x = G"
  proof
    fix x assume "x \<in> set (concat (map (replicate n) (rows B G (elems g))))"
    then have "x \<in> set (rows B G (elems g))" by (rule set_concat_replicate)
    then show "length x = G" by (rule rows_lengths [OF lg])
  qed
  have wAS: "\<forall>x\<in>set (rows (B * n) A (elems a)). length x = A"
    using rows_lengths [OF la] by simp
  show ?thesis
    unfolding feature_rows_def by (rule map2_append_lengths [OF wGS wAS])
qed

lemma all_rewards_closed_form:
  assumes v: "valid_observation u obs g a B n G A" and h: "length h = G + A"
    and fits: "list_all fits_int64 h"
  shows "all_rewards float32 u obs h
    = Inr (Tensor [B, n] (map (\<lambda>r. dot r (map float32 h)) (feature_rows g a B n G A)))"
proof -
  from v have og: "obs (GLOBAL_FEATURE_KEY u) = Some g" and oa: "obs (PER_ARM_FEATURE_KEY u) = Some a"
    and sg: "shape g = [B, G]" and sa: "shape a = [B, n, A]"
    and lg: "length (elems g) = B * G" and la: "length (elems a) = B * n * A"
    by (simp_all add: valid_observation_def wf_tensor_def)
  let ?GS = "concat (map (replicate n) (rows B G (elems g)))"
  have lGS: "length ?GS = B * n" by (simp add: length_concat_replicate length_rows)
  have wGS: "\<forall>x\<in>set ?GS. length x = G"
  proof
    fix x assume "x \<in> set ?GS"
    then have "x \<in> set (rows B G (elems g))" by (rule set_concat_replicate)
    then show "length x = G" by (rule rows_lengths [OF lg])
  qed
  note 0 = tf_cast_fits [OF fits, of float32]
  have 1: "getitem obs (GLOBAL_FEATURE_KEY u) = Inr g" by (simp add: getitem_def og)
  have 2: "getitem obs (PER_ARM_FEATURE_KEY u) = Inr a" by (simp add: getitem_def oa)
  have 3: "tf_shape_at a 1 = Inr n" by (simp add: tf_shape_at_def sa)
  have 4: "tf_expand_dims g 1 = Inr (Tensor [B, 1, G] (elems g))"
    by (simp add: tf_expand_dims_def sg)
  note 5 = tf_tile_global [OF lg, of n]
  have 6: "tf_concat_last (Tensor [B, n, G] (concat ?GS)) a
      = Inr (Tensor [B, n, G + A] (concat (feature_rows g a B n G A)))"
    unfolding feature_rows_def by (rule tf_concat_last_rows [OF sa lGS wGS])
  note wF = feature_rows_widths [OF v]
  have hf: "length (map float32 h) = G + A" using h by simp
  note 7 = tf_matvec_rows [OF length_feature_rows wF hf]
  show ?thesis
    unfolding all_rewards_def 0 bind_result.simps 1 2 3 4 5 6 7 ..
qed

lemma feature_rows_nth:
  assumes v: "valid_observation u obs g a B n G A" and b: "b < B" and i: "i < n"
  shows "feature_rows g a B n G A ! (b * n + i) = vec_at2 g b @ vec_at3 a b i"
proof -
  from v have sg: "shape g = [B, G]" and sa: "shape a = [B, n, A]"
    by (simp_all add: valid_observation_def)
  have idx: "b * n + i < B * n" by (rule flat_index [OF b i])
  have "feature_rows g a B n G A ! (b * n + i)
      = concat (map (replicate n) (rows B G (elems g))) ! (b * n + i) @ rows (B * n) A (elems a) ! (b * n + i)"
    using idx by (simp add: feature_rows_def length_concat_replicate length_rows)
  also have "concat (map (replicate n) (rows B G (elems g))) ! (b * n + i) = rows B G (elems g) ! b"
    using b i by (simp add: nth_concat_replicate length_rows)
  also have "rows B G (elems g) ! b = vec_at2 g b"
    using b by (simp add: rows_nth vec_at2_def sg)
  also have "rows (B * n) A (elems a) ! (b * n + i) = vec_at3 a b i"
    using idx by (simp add: rows_nth vec_at3_def sa)
  finally show ?thesis .
qed

subsection \<open>The scenarios of the specification, evaluated\<close>

text \<open>The observation of the scenarios is valid. With the hidden parameter
  \<open>[1, 1, 1, 1]\<close> both arms have the reward 2, with \<open>[1, 1, 2, 1]\<close> they have the
  rewards 3 and 2 (with natural numbers as scalars, and the first also in single
  precision).\<close>

lemma scenario_valid:
  "valid_observation scenario_utils scenario_observation scenario_global scenario_per_arm 1 2 2 2"
  by (simp add: valid_observation_def scenario_utils_def scenario_observation_def
      scenario_global_def scenario_per_arm_def wf_tensor_def)






lemma scenario_fits: "list_all fits_int64 [1, 1, 1, 1]" "list_all fits_int64 [1, 1, 2, 1]"
  by (simp_all add: fits_int64_def)

text \<open>
  C1, as the specification states it, fails on the script: the hidden parameter is cast to
  single precision before the product. With the global feature 1, one arm with the feature
  0 and the hidden parameter \<open>[16777217, 0]\<close> the dot product of the formula is 16777217,
  and the reward of the script is 16777216; with the hidden parameter \<open>[2 ^ 63, 0]\<close> the
  cast raises.
\<close>

theorem all_rewards_rounds_hidden_param:
  "valid_observation scenario_utils rounding_observation
     (Tensor [1, 1] [Float32 (Fin 1)]) (Tensor [1, 1, 1] [Float32 (Fin 0)]) 1 1 1 1 \<and>
   length [16777217, 0 :: int] = 1 + 1 \<and>
   all_rewards ieee_float32 scenario_utils rounding_observation [16777217, 0]
     = Inr (Tensor [1, 1] [Float32 (Fin 16777216)]) \<and>
   exact_dot ([1] @ [0]) [16777217, 0] = 16777217 \<and>
   elem_at2 (Tensor [1, 1] [Float32 (Fin 16777216)]) 0 0
     \<noteq> Float32 (Fin (exact_dot ([1] @ [0]) [16777217, 0])) \<and>
   all_rewards ieee_float32 scenario_utils rounding_observation [2 ^ 63, 0] = Inl ValueError"
  by code_simp

text \<open>
  C1, amended. For every valid observation (global features \<open>g\<close> of shape \<open>[B, G]\<close>,
  per-arm features \<open>a\<close> of shape \<open>[B, n, A]\<close>) and every hidden parameter vector \<open>h\<close>
  of length \<open>G + A\<close> whose entries are within the 64-bit signed range, \<^verbatim>\<open>_all_rewards\<close>
  returns a tensor of shape \<open>[B, n]\<close> whose element \<open>[b, i]\<close> is the dot product of
  \<open>g[b]\<close> followed by \<open>a[b][i]\<close> with \<open>h\<close> cast to \<^verbatim>\<open>float32\<close>; with an entry
  outside that range it raises \<^verbatim>\<open>ValueError\<close>.
\<close>

theorem all_rewards_is_dot_of_concat:
  assumes v: "valid_observation u obs g a B n G A" and h: "length h = G + A"
  shows "(list_all fits_int64 h \<longrightarrow>
            (\<exists>r. all_rewards float32 u obs h = Inr r \<and> shape r = [B, n] \<and> wf_tensor r \<and>
               (\<forall>b<B. \<forall>i<n. elem_at2 r b i
                  = dot (vec_at2 g b @ vec_at3 a b i) (map float32 h)))) \<and>
         (\<not> list_all fits_int64 h \<longrightarrow> all_rewards float32 u obs h = Inl ValueError)"
proof (intro conjI impI)
  assume fits: "list_all fits_int64 h"
  let ?r = "Tensor [B, n] (map (\<lambda>r. dot r (map float32 h)) (feature_rows g a B n G A))"
  have "all_rewards float32 u obs h = Inr ?r" by (rule all_rewards_closed_form [OF v h fits])
  moreover have "shape ?r = [B, n]" by simp
  moreover have "wf_tensor ?r" by (simp add: wf_tensor_def length_feature_rows)
  moreover have "\<forall>b<B. \<forall>i<n. elem_at2 ?r b i
      = dot (vec_at2 g b @ vec_at3 a b i) (map float32 h)"
  proof (intro allI impI)
    fix b i assume b: "b < B" and i: "i < n"
    have "b * n + i < length (feature_rows g a B n G A)"
      using flat_index [OF b i] by (simp add: length_feature_rows)
    then show "elem_at2 ?r b i = dot (vec_at2 g b @ vec_at3 a b i) (map float32 h)"
      by (simp add: elem_at2_def feature_rows_nth [OF v b i])
  qed
  ultimately show "\<exists>r. all_rewards float32 u obs h = Inr r \<and> shape r = [B, n] \<and> wf_tensor r \<and>
               (\<forall>b<B. \<forall>i<n. elem_at2 r b i
                  = dot (vec_at2 g b @ vec_at3 a b i) (map float32 h))"
    by blast
next
  assume "\<not> list_all fits_int64 h"
  then show "all_rewards float32 u obs h = Inl ValueError" by (rule all_rewards_cast_raises)
qed

theorem all_rewards_is_dot_of_concat_witness:
  "valid_observation scenario_utils scenario_observation scenario_global scenario_per_arm 1 2 2 2 \<and>
   length [1, 1, 2, 1 :: int] = 2 + 2 \<and> list_all fits_int64 [1, 1, 2, 1] \<and>
   (\<exists>r. all_rewards nat scenario_utils scenario_observation [1, 1, 2, 1] = Inr r \<and>
      shape r = [1, 2] \<and> elem_at2 r 0 0 = 3 \<and> elem_at2 r 0 1 = 2)"
proof -
  have h: "length [1, 1, 2, 1 :: int] = 2 + 2" by simp
  from all_rewards_is_dot_of_concat [OF scenario_valid h, of nat, THEN conjunct1, rule_format,
      OF scenario_fits(2)]
  obtain r where r: "all_rewards nat scenario_utils scenario_observation [1, 1, 2, 1] = Inr r"
    "shape r = [1, 2]"
    "\<forall>b<1. \<forall>i<2. elem_at2 r b i
        = dot (vec_at2 scenario_global b @ vec_at3 scenario_per_arm b i) (map nat [1, 1, 2, 1])"
    by blast
  from r(3) have "elem_at2 r 0 0 = 3" "elem_at2 r 0 1 = 2"
    by (simp_all add: dot_def vec_at2_def vec_at3_def scenario_global_def scenario_per_arm_def)
  with r(1,2) scenario_valid h scenario_fits(2) show ?thesis by blast
qed

subsection \<open>Reductions of a rank-2 tensor along axis 1\<close>

lemma lanes_rank2: "length blk = n \<Longrightarrow> lanes n (Suc 0) blk = [blk]"
  using map_nth [of blk] by (auto simp: lanes_def)

lemma map_rows_cong:
  assumes "length xs = k * w" and "\<And>r. length r = w \<Longrightarrow> f r = g r"
  shows "map f (rows k w xs) = map g (rows k w xs)"
  by (rule map_cong [OF refl]) (rule assms(2), rule rows_lengths [OF assms(1)])

lemma tf_reduce_max_rank2:
  assumes "length xs = B * n"
  shows "tf_reduce_max_axis1 (Tensor [B, n] xs) = Inr (Tensor [B] (map reduce_max_list (rows B n xs)))"
proof -
  have m: "map (\<lambda>blk. map reduce_max_list (lanes n (Suc 0) blk)) (rows B n xs)
      = map (\<lambda>blk. [reduce_max_list blk]) (rows B n xs)"
    by (rule map_rows_cong [OF assms]) (simp add: lanes_rank2)
  have "concat (map (\<lambda>blk. map reduce_max_list (lanes n (Suc 0) blk)) (rows B n xs))
      = map reduce_max_list (rows B n xs)"
    by (simp only: m concat_map_singleton)
  then show ?thesis
    by (simp add: tf_reduce_max_axis1_def)
qed

lemma tf_argmax_rank2:
  assumes "length xs = B * n" and "0 < n"
  shows "tf_argmax_axis1 (Tensor [B, n] xs)
    = Inr (Tensor [B] (map (\<lambda>r. int32_of_nat (argmax_list r)) (rows B n xs)))"
proof -
  have m: "map (\<lambda>blk. map (\<lambda>lane. int32_of_nat (argmax_list lane)) (lanes n (Suc 0) blk)) (rows B n xs)
      = map (\<lambda>blk. [int32_of_nat (argmax_list blk)]) (rows B n xs)"
    by (rule map_rows_cong [OF assms(1)]) (simp add: lanes_rank2)
  have "concat (map (\<lambda>blk. map (\<lambda>lane. int32_of_nat (argmax_list lane)) (lanes n (Suc 0) blk)) (rows B n xs))
      = map (\<lambda>r. int32_of_nat (argmax_list r)) (rows B n xs)"
    by (simp only: m concat_map_singleton)
  then show ?thesis
    using assms(2) by (simp add: tf_argmax_axis1_def)
qed








subsection \<open>The oracle in closed form\<close>

lemma length_reward_elems: "length (reward_elems g a B n G A h) = B * n"
  by (simp add: reward_elems_def length_feature_rows)

lemma all_rewards_reward_elems:
  assumes "valid_observation u obs g a B n G A" and "length h = G + A"
    and "list_all fits_int64 h"
  shows "all_rewards float32 u obs h = Inr (Tensor [B, n] (reward_elems g a B n G A (map float32 h)))"
  unfolding reward_elems_def by (rule all_rewards_closed_form [OF assms])

lemma optimal_reward_closed_form:
  assumes "valid_observation u obs g a B n G A" and "length h = G + A"
    and "list_all fits_int64 h"
  shows "optimal_reward float32 u obs h
    = Inr (Tensor [B] (map reduce_max_list (rows B n (reward_elems g a B n G A (map float32 h)))))"
  by (simp add: optimal_reward_def all_rewards_reward_elems [OF assms]
      tf_reduce_max_rank2 [OF length_reward_elems])

lemma optimal_action_closed_form:
  assumes "valid_observation u obs g a B n G A" and "length h = G + A"
    and "list_all fits_int64 h" and "0 < n"
  shows "optimal_action float32 u obs h
    = Inr (Tensor [B] (map (\<lambda>r. int32_of_nat (argmax_list r)) (rows B n (reward_elems g a B n G A (map float32 h)))))"
  by (simp add: optimal_action_def all_rewards_reward_elems [OF assms(1,2,3)]
      tf_argmax_rank2 [OF length_reward_elems assms(4)])







text \<open>
  C4. For every valid observation and hidden parameter vector of the matching length that
  the cast accepts, \<^verbatim>\<open>optimal_reward\<close> returns a tensor of shape \<open>[B]\<close>, and so does
  \<^verbatim>\<open>optimal_action\<close> when there is at least one arm: one dimension, of the batch size
  of the observation.
\<close>

theorem optimal_outputs_have_batch_shape:
  assumes v: "valid_observation u obs g a B n G A" and h: "length h = G + A"
    and fits: "list_all fits_int64 h"
  shows "(\<exists>r. optimal_reward float32 u obs h = Inr r \<and> shape r = [B] \<and> length (elems r) = B) \<and>
         (0 < n \<longrightarrow> (\<exists>act. optimal_action float32 u obs h = Inr act \<and> shape act = [B] \<and> length (elems act) = B))"
  by (simp add: optimal_reward_closed_form [OF v h fits] optimal_action_closed_form [OF v h fits] length_rows)

theorem optimal_outputs_have_batch_shape_witness:
  "valid_observation scenario_utils scenario_observation scenario_global
      (scenario_per_arm :: nat tensor) 1 2 2 2 \<and>
   length [1, 1, 2, 1 :: int] = 2 + 2 \<and> list_all fits_int64 [1, 1, 2, 1] \<and>
   (\<exists>r. optimal_reward nat scenario_utils scenario_observation [1, 1, 2, 1] = Inr r \<and>
      shape r = [1] \<and> length (elems r) = 1) \<and>
   (\<exists>act. optimal_action nat scenario_utils scenario_observation [1, 1, 2, 1] = Inr act \<and>
      shape act = [1] \<and> length (elems act) = 1)"
proof -
  have h: "length [1, 1, 2, 1 :: int] = 2 + 2" by simp
  from optimal_outputs_have_batch_shape [where ?float32.0 = nat, OF scenario_valid h scenario_fits(2)]
  show ?thesis using scenario_valid h scenario_fits(2) by simp
qed



section \<open>The script's wiring\<close>

subsection \<open>What main builds\<close>

lemma main_Inr_wiring:
  assumes "main float32 lib u FLAGS = Inr call"
  shows "train_training_data_spec_transformation_fn call = select_drop_arm_feature_fn u FLAGS"
    and "agent_training_data_spec_transformation_fn (train_agent call) = select_drop_arm_feature_fn u FLAGS"
    and "env_reward_fn (py_env (train_environment call)) = LinearNormalReward HIDDEN_PARAM"
    and "train_additional_metrics call =
          [RegretMetric (\<lambda>observation. optimal_reward float32 u observation HIDDEN_PARAM),
           SuboptimalArmsMetric (\<lambda>observation. optimal_action float32 u observation HIDDEN_PARAM)]"
    and "FLAGS_network FLAGS = ''commontower'' \<or> FLAGS_network FLAGS = ''dotproduct''"
    and "FLAGS_network FLAGS = ''commontower'' \<Longrightarrow> agent_reward_network (train_agent call) =
          create_feed_forward_common_tower_network (observation_spec (train_environment call))
            [4, 3] [3, 4] [4, 2]"
    and "FLAGS_network FLAGS = ''dotproduct'' \<Longrightarrow> agent_reward_network (train_agent call) =
          create_feed_forward_dot_product_network (observation_spec (train_environment call))
            [4, 3, 6] [3, 4, 6]"
    and "env_global_context_sampling_fn (py_env (train_environment call))
          = global_context_sampling_fn float32"
    and "env_arm_context_sampling_fn (py_env (train_environment call))
          = arm_context_sampling_fn float32"
  using assms
  by (auto simp: main_def lib_call_def select_network_def read_network_def Let_def
      split: option.splits if_splits)


lemma main_example:
  "\<exists>call. main float32 no_failure scenario_utils example_flags = Inr call"
  by (simp add: main_def lib_call_def no_failure_def select_network_def read_network_def
      example_flags_def Let_def)

text \<open>
  C5. With \<^verbatim>\<open>drop_arm_obs\<close> set, the transformation is \<^verbatim>\<open>drop_arm_feature_fn\<close>: on a
  trajectory whose observation holds the per-arm key it returns a trajectory without that
  key, with every other observation entry and every other field as they were (without the
  key, the deletion raises \<^verbatim>\<open>KeyError\<close>). With the flag unset the transformation is
  \<^verbatim>\<open>None\<close>. Either way it is what \<^verbatim>\<open>main\<close> passes to the agent and to the trainer.
\<close>

theorem drop_arm_obs_transformation:
  "(FLAGS_drop_arm_obs FLAGS \<longrightarrow>
      (\<exists>f. select_drop_arm_feature_fn u FLAGS = Some f \<and>
         (\<forall>traj :: ('v, 'r) trajectory.
            (PER_ARM_FEATURE_KEY u \<in> dom (observation traj) \<longrightarrow>
               (\<exists>t. f traj = Inr t \<and>
                  PER_ARM_FEATURE_KEY u \<notin> dom (observation t) \<and>
                  (\<forall>k. k \<noteq> PER_ARM_FEATURE_KEY u \<longrightarrow> observation t k = observation traj k) \<and>
                  other_fields t = other_fields traj)) \<and>
            (PER_ARM_FEATURE_KEY u \<notin> dom (observation traj) \<longrightarrow>
               f traj = Inl (KeyError (PER_ARM_FEATURE_KEY u)))))) \<and>
   (\<not> FLAGS_drop_arm_obs FLAGS \<longrightarrow>
      (select_drop_arm_feature_fn u FLAGS
         :: (('v, 'r) trajectory \<Rightarrow> error + ('v, 'r) trajectory) option) = None) \<and>
   (\<forall>float32 lib (call :: ('a::{zero,plus,times,linorder,order_bot}, 'v, 'r) train_call).
      main float32 lib u FLAGS = Inr call \<longrightarrow>
        train_training_data_spec_transformation_fn call = select_drop_arm_feature_fn u FLAGS \<and>
        agent_training_data_spec_transformation_fn (train_agent call)
          = select_drop_arm_feature_fn u FLAGS)"
proof (intro conjI impI allI)
  assume "FLAGS_drop_arm_obs FLAGS"
  then have "select_drop_arm_feature_fn u FLAGS
      = Some (drop_arm_feature_fn u :: ('v, 'r) trajectory \<Rightarrow> error + ('v, 'r) trajectory)"
    by (simp add: select_drop_arm_feature_fn_def)
  moreover have "\<forall>traj :: ('v, 'r) trajectory.
            (PER_ARM_FEATURE_KEY u \<in> dom (observation traj) \<longrightarrow>
               (\<exists>t. drop_arm_feature_fn u traj = Inr t \<and>
                  PER_ARM_FEATURE_KEY u \<notin> dom (observation t) \<and>
                  (\<forall>k. k \<noteq> PER_ARM_FEATURE_KEY u \<longrightarrow> observation t k = observation traj k) \<and>
                  other_fields t = other_fields traj)) \<and>
            (PER_ARM_FEATURE_KEY u \<notin> dom (observation traj) \<longrightarrow>
               drop_arm_feature_fn u traj = Inl (KeyError (PER_ARM_FEATURE_KEY u)))"
    by (auto simp: drop_arm_feature_fn_def delitem_def split: option.splits)
  ultimately show "\<exists>f. select_drop_arm_feature_fn u FLAGS = Some f \<and>
         (\<forall>traj :: ('v, 'r) trajectory.
            (PER_ARM_FEATURE_KEY u \<in> dom (observation traj) \<longrightarrow>
               (\<exists>t. f traj = Inr t \<and>
                  PER_ARM_FEATURE_KEY u \<notin> dom (observation t) \<and>
                  (\<forall>k. k \<noteq> PER_ARM_FEATURE_KEY u \<longrightarrow> observation t k = observation traj k) \<and>
                  other_fields t = other_fields traj)) \<and>
            (PER_ARM_FEATURE_KEY u \<notin> dom (observation traj) \<longrightarrow>
               f traj = Inl (KeyError (PER_ARM_FEATURE_KEY u))))"
    by blast
next
  assume "\<not> FLAGS_drop_arm_obs FLAGS"
  then show "(select_drop_arm_feature_fn u FLAGS
         :: (('v, 'r) trajectory \<Rightarrow> error + ('v, 'r) trajectory) option) = None"
    by (simp add: select_drop_arm_feature_fn_def)
next
  fix float32 lib and call :: "('a, 'v, 'r) train_call"
  assume "main float32 lib u FLAGS = Inr call"
  then show "train_training_data_spec_transformation_fn call = select_drop_arm_feature_fn u FLAGS"
    by (rule main_Inr_wiring(1))
next
  fix float32 lib and call :: "('a, 'v, 'r) train_call"
  assume "main float32 lib u FLAGS = Inr call"
  then show "agent_training_data_spec_transformation_fn (train_agent call)
      = select_drop_arm_feature_fn u FLAGS"
    by (rule main_Inr_wiring(2))
qed



theorem drop_arm_obs_transformation_witness:
  "FLAGS_drop_arm_obs example_flags \<and>
   ''per_arm'' \<in> dom (observation example_trajectory) \<and>
   (\<exists>f. select_drop_arm_feature_fn scenario_utils example_flags = Some f \<and>
      f example_trajectory
        = Inr \<lparr>observation = [''global'' \<mapsto> scenario_global], other_fields = ''reward''\<rparr>)"
proof -
  have fl: "FLAGS_drop_arm_obs example_flags" by (simp add: example_flags_def)
  have pk: "PER_ARM_FEATURE_KEY scenario_utils = ''per_arm''" by (simp add: scenario_utils_def)
  have key: "''per_arm'' \<in> dom (observation example_trajectory)"
    by (simp add: example_trajectory_def scenario_observation_def)
  note inst = drop_arm_obs_transformation [where FLAGS = example_flags and u = scenario_utils
      and 'v = "nat tensor" and 'r = string, THEN conjunct1, THEN mp, OF fl, unfolded pk]
  then obtain f :: "(nat tensor, string) trajectory \<Rightarrow> error + (nat tensor, string) trajectory"
    where f: "select_drop_arm_feature_fn scenario_utils example_flags = Some f"
    and drop: "\<And>traj. ''per_arm'' \<in> dom (observation traj) \<Longrightarrow>
               (\<exists>t. f traj = Inr t \<and> ''per_arm'' \<notin> dom (observation t) \<and>
                  (\<forall>k. k \<noteq> ''per_arm'' \<longrightarrow> observation t k = observation traj k) \<and>
                  other_fields t = other_fields traj)"
    by (elim exE conjE) blast
  from drop [OF key] obtain t where t: "f example_trajectory = Inr t"
    "''per_arm'' \<notin> dom (observation t)"
    "\<And>k. k \<noteq> ''per_arm'' \<Longrightarrow> observation t k = observation example_trajectory k"
    "other_fields t = other_fields example_trajectory"
    by (elim exE conjE) blast
  have "observation t = [''global'' \<mapsto> scenario_global]"
  proof
    fix k
    show "observation t k = [''global'' \<mapsto> scenario_global] k"
    proof (cases "k = ''per_arm''")
      case True
      with t(2) show ?thesis by (simp add: domIff)
    next
      case False
      from t(3) [OF False] False show ?thesis
        by (simp add: example_trajectory_def scenario_observation_def)
    qed
  qed
  with t(4) have "t = \<lparr>observation = [''global'' \<mapsto> scenario_global], other_fields = ''reward''\<rparr>"
    by (simp add: example_trajectory_def)
  with t(1) have "f example_trajectory
      = Inr \<lparr>observation = [''global'' \<mapsto> scenario_global], other_fields = ''reward''\<rparr>"
    by simp
  with f fl key show ?thesis by blast
qed

lemma select_network_commontower:
  "FLAGS_network FLAGS = ''commontower'' \<Longrightarrow> select_network lib FLAGS spec =
     (case lib Call_create_feed_forward_common_tower_network of
        None \<Rightarrow> Inr (Some (create_feed_forward_common_tower_network spec [4, 3] [3, 4] [4, 2]))
      | Some e \<Rightarrow> Inl e)"
  by (simp add: select_network_def lib_call_def split: option.splits)

lemma select_network_dotproduct:
  "FLAGS_network FLAGS = ''dotproduct'' \<Longrightarrow> select_network lib FLAGS spec =
     (case lib Call_create_feed_forward_dot_product_network of
        None \<Rightarrow> Inr (Some (create_feed_forward_dot_product_network spec [4, 3, 6] [3, 4, 6]))
      | Some e \<Rightarrow> Inl e)"
  by (simp add: select_network_def lib_call_def split: option.splits)

text \<open>
  C6. The network flag defaults to \<open>commontower\<close> and accepts exactly the values
  \<open>commontower\<close> and \<open>dotproduct\<close>. With \<open>commontower\<close> the script calls the factory
  of the common-tower network, with \<open>dotproduct\<close> the factory of the dot-product network,
  both on the observation spec of the environment; whenever \<^verbatim>\<open>main\<close> reaches the
  trainer, the network of the agent is the one of the flag.
\<close>

theorem network_flag_selects_network:
  "parse_enum_flag network_flag None = Inr ''commontower'' \<and>
   (\<forall>v. (\<exists>r. parse_enum_flag network_flag (Some v) = Inr r)
        \<longleftrightarrow> (v = ''commontower'' \<or> v = ''dotproduct'')) \<and>
   (\<forall>v r. parse_enum_flag network_flag (Some v) = Inr r \<longrightarrow> r = v) \<and>
   (\<forall>lib FLAGS (spec :: 'a env_spec).
      (FLAGS_network FLAGS = ''commontower'' \<longrightarrow> select_network lib FLAGS spec =
         (case lib Call_create_feed_forward_common_tower_network of
            None \<Rightarrow> Inr (Some (create_feed_forward_common_tower_network spec [4, 3] [3, 4] [4, 2]))
          | Some e \<Rightarrow> Inl e)) \<and>
      (FLAGS_network FLAGS = ''dotproduct'' \<longrightarrow> select_network lib FLAGS spec =
         (case lib Call_create_feed_forward_dot_product_network of
            None \<Rightarrow> Inr (Some (create_feed_forward_dot_product_network spec [4, 3, 6] [3, 4, 6]))
          | Some e \<Rightarrow> Inl e))) \<and>
   (\<forall>float32 lib u FLAGS (call :: ('a::{zero,plus,times,linorder,order_bot}, 'v, 'r) train_call).
      main float32 lib u FLAGS = Inr call \<longrightarrow>
        (FLAGS_network FLAGS = ''commontower'' \<or> FLAGS_network FLAGS = ''dotproduct'') \<and>
        (FLAGS_network FLAGS = ''commontower'' \<longrightarrow> agent_reward_network (train_agent call) =
           create_feed_forward_common_tower_network (observation_spec (train_environment call))
             [4, 3] [3, 4] [4, 2]) \<and>
        (FLAGS_network FLAGS = ''dotproduct'' \<longrightarrow> agent_reward_network (train_agent call) =
           create_feed_forward_dot_product_network (observation_spec (train_environment call))
             [4, 3, 6] [3, 4, 6]))"
proof (intro conjI allI impI)
  show "parse_enum_flag network_flag None = Inr ''commontower''"
    by (simp add: parse_enum_flag_def network_flag_def)
next
  fix v
  show "(\<exists>r. parse_enum_flag network_flag (Some v) = Inr r)
        \<longleftrightarrow> (v = ''commontower'' \<or> v = ''dotproduct'')"
    by (simp add: parse_enum_flag_def network_flag_def)
next
  fix v r assume "parse_enum_flag network_flag (Some v) = Inr r"
  then show "r = v"
    by (simp add: parse_enum_flag_def network_flag_def split: if_splits)
next
  fix lib and FLAGS :: flags and spec :: "'a env_spec"
  assume "FLAGS_network FLAGS = ''commontower''"
  then show "select_network lib FLAGS spec =
         (case lib Call_create_feed_forward_common_tower_network of
            None \<Rightarrow> Inr (Some (create_feed_forward_common_tower_network spec [4, 3] [3, 4] [4, 2]))
          | Some e \<Rightarrow> Inl e)"
    by (rule select_network_commontower)
next
  fix lib and FLAGS :: flags and spec :: "'a env_spec"
  assume "FLAGS_network FLAGS = ''dotproduct''"
  then show "select_network lib FLAGS spec =
         (case lib Call_create_feed_forward_dot_product_network of
            None \<Rightarrow> Inr (Some (create_feed_forward_dot_product_network spec [4, 3, 6] [3, 4, 6]))
          | Some e \<Rightarrow> Inl e)"
    by (rule select_network_dotproduct)
next
  fix float32 lib u FLAGS and call :: "('a, 'v, 'r) train_call"
  assume "main float32 lib u FLAGS = Inr call"
  then show "FLAGS_network FLAGS = ''commontower'' \<or> FLAGS_network FLAGS = ''dotproduct''"
    by (rule main_Inr_wiring(5))
next
  fix float32 lib u FLAGS and call :: "('a, 'v, 'r) train_call"
  assume "main float32 lib u FLAGS = Inr call" and "FLAGS_network FLAGS = ''commontower''"
  then show "agent_reward_network (train_agent call) =
           create_feed_forward_common_tower_network (observation_spec (train_environment call))
             [4, 3] [3, 4] [4, 2]"
    by (rule main_Inr_wiring(6))
next
  fix float32 lib u FLAGS and call :: "('a, 'v, 'r) train_call"
  assume "main float32 lib u FLAGS = Inr call" and "FLAGS_network FLAGS = ''dotproduct''"
  then show "agent_reward_network (train_agent call) =
           create_feed_forward_dot_product_network (observation_spec (train_environment call))
             [4, 3, 6] [3, 4, 6]"
    by (rule main_Inr_wiring(7))
qed

theorem network_flag_selects_network_witness:
  "parse_enum_flag network_flag (Some ''dotproduct'') = Inr ''dotproduct'' \<and>
   FLAGS_network example_flags = ''dotproduct'' \<and>
   (\<exists>call :: (nat, nat tensor, unit) train_call.
      main nat no_failure scenario_utils example_flags = Inr call \<and>
      agent_reward_network (train_agent call) =
        create_feed_forward_dot_product_network (observation_spec (train_environment call))
          [4, 3, 6] [3, 4, 6])"
proof -
  have fl: "FLAGS_network example_flags = ''dotproduct''" by (simp add: example_flags_def)
  have p: "parse_enum_flag network_flag (Some ''dotproduct'') = Inr ''dotproduct''"
    by (simp add: parse_enum_flag_def network_flag_def)
  from main_example obtain call :: "(nat, nat tensor, unit) train_call"
    where call: "main nat no_failure scenario_utils example_flags = Inr call" by blast
  note all = network_flag_selects_network [where 'a = nat and 'v = "nat tensor" and 'r = unit]
  from all have "\<forall>float32 lib u FLAGS (call :: (nat, nat tensor, unit) train_call).
      main float32 lib u FLAGS = Inr call \<longrightarrow>
        (FLAGS_network FLAGS = ''commontower'' \<or> FLAGS_network FLAGS = ''dotproduct'') \<and>
        (FLAGS_network FLAGS = ''commontower'' \<longrightarrow> agent_reward_network (train_agent call) =
           create_feed_forward_common_tower_network (observation_spec (train_environment call))
             [4, 3] [3, 4] [4, 2]) \<and>
        (FLAGS_network FLAGS = ''dotproduct'' \<longrightarrow> agent_reward_network (train_agent call) =
           create_feed_forward_dot_product_network (observation_spec (train_environment call))
             [4, 3, 6] [3, 4, 6])"
    by (elim conjE)
  with call fl have "agent_reward_network (train_agent call) =
        create_feed_forward_dot_product_network (observation_spec (train_environment call))
          [4, 3, 6] [3, 4, 6]"
    by blast
  with p fl call show ?thesis by blast
qed

subsection \<open>Exceptions\<close>

lemma main_outcome:
  "case first_failure lib (main_calls FLAGS) of
      Some e \<Rightarrow> main float32 lib u FLAGS = Inl e
    | None \<Rightarrow>
        if FLAGS_network FLAGS = ''commontower'' \<or> FLAGS_network FLAGS = ''dotproduct''
        then \<exists>call. main float32 lib u FLAGS = Inr call
        else main float32 lib u FLAGS = Inl (UnboundLocalError ''network'')"
  by (simp add: main_def main_calls_def lib_call_def select_network_def read_network_def Let_def
      split: option.split)

lemma main_first_failure:
  assumes "first_failure lib (main_calls FLAGS) = Some e"
  shows "main float32 lib u FLAGS = Inl e"
  using main_outcome [where lib = lib and FLAGS = FLAGS and u = u and ?float32.0 = float32] assms by simp

lemma main_Inl_origin:
  assumes "(main float32 lib u FLAGS :: error + ('a::{zero,plus,times,linorder,order_bot}, 'v, 'r) train_call)
      = Inl e"
  shows "first_failure lib (main_calls FLAGS) = Some e \<or>
     (first_failure lib (main_calls FLAGS) = None \<and> e = UnboundLocalError ''network'' \<and>
      FLAGS_network FLAGS \<noteq> ''commontower'' \<and> FLAGS_network FLAGS \<noteq> ''dotproduct'')"
proof (cases "first_failure lib (main_calls FLAGS)")
  case None
  have "if FLAGS_network FLAGS = ''commontower'' \<or> FLAGS_network FLAGS = ''dotproduct''
        then \<exists>call. (main float32 lib u FLAGS :: error + ('a, 'v, 'r) train_call) = Inr call
        else (main float32 lib u FLAGS :: error + ('a, 'v, 'r) train_call) = Inl (UnboundLocalError ''network'')"
    using main_outcome [where lib = lib and FLAGS = FLAGS and u = u and ?float32.0 = float32] None by simp
  with assms None show ?thesis by (auto split: if_splits)
next
  case (Some e')
  have "(main float32 lib u FLAGS :: error + ('a, 'v, 'r) train_call) = Inl e'"
    by (rule main_first_failure [OF Some])
  with assms Some show ?thesis by simp
qed

lemma parse_example_command_line: "parse_flags None example_command_line = Inr example_flags"
  by code_simp

lemma parse_malformed_command_line:
  "parse_flags None malformed_command_line = Inl (IllegalFlagValueError ''foo'')"
  by code_simp

text \<open>
  C8, as the specification states it, fails on the script for a malformed flag: the flag
  library rejects the network \<open>foo\<close> with \<^verbatim>\<open>IllegalFlagValueError\<close>, and what leaves the
  script is \<^verbatim>\<open>SystemExit(1)\<close> of \<^verbatim>\<open>app.run\<close>, not that exception.
\<close>

theorem malformed_flag_leaves_as_exit:
  "parse_flags None malformed_command_line = Inl (IllegalFlagValueError ''foo'') \<and>
   (script nat no_failure scenario_utils None malformed_command_line
      :: error + (nat, nat tensor, unit) train_call) = Inl (SystemExit 1) \<and>
   (script nat no_failure scenario_utils None malformed_command_line
      :: error + (nat, nat tensor, unit) train_call) \<noteq> Inl (IllegalFlagValueError ''foo'')"
  by (simp add: script_def app_run_def parse_malformed_command_line)

text \<open>
  C8, amended. No exception raised inside the functions of the script is caught or
  translated. In \<^verbatim>\<open>_all_rewards\<close> the exception of the first operation that raises (the
  cast of the hidden parameter, a missing observation key, a shape that an operation
  rejects) is the result; an exception of \<^verbatim>\<open>_all_rewards\<close> or of the reduction is the
  result of \<^verbatim>\<open>optimal_reward\<close> and \<^verbatim>\<open>optimal_action\<close>; a failing deletion is the
  result of \<^verbatim>\<open>drop_arm_feature_fn\<close>; the exception of the first framework call that
  raises is the result of \<^verbatim>\<open>main\<close>, which raises nothing else but for the unbound
  \<^verbatim>\<open>network\<close> of a flag value outside the enum; and \<^verbatim>\<open>app.run\<close> passes the result
  of \<^verbatim>\<open>main\<close> on. The exceptions are those that \<^verbatim>\<open>app.run\<close> handles itself: on a
  malformed flag the script ends with \<^verbatim>\<open>SystemExit(1)\<close>, whatever the flag library
  raised, and a \<^verbatim>\<open>UsageError\<close> out of \<^verbatim>\<open>main\<close> becomes \<^verbatim>\<open>SystemExit\<close> with
  the exit code of the error.
\<close>

theorem exceptions_propagate_unchanged:
  "(tf_cast h float32 = Inl e \<longrightarrow> all_rewards float32 u obs h = Inl e) \<and>
   (\<forall>hp. tf_cast h float32 = Inr hp \<longrightarrow>
      (getitem obs (GLOBAL_FEATURE_KEY u) = Inl e \<longrightarrow> all_rewards float32 u obs h = Inl e) \<and>
      (\<forall>g. getitem obs (GLOBAL_FEATURE_KEY u) = Inr g \<longrightarrow>
         (getitem obs (PER_ARM_FEATURE_KEY u) = Inl e \<longrightarrow> all_rewards float32 u obs h = Inl e) \<and>
         (\<forall>a. getitem obs (PER_ARM_FEATURE_KEY u) = Inr a \<longrightarrow>
            (tf_shape_at a 1 = Inl e \<longrightarrow> all_rewards float32 u obs h = Inl e) \<and>
            (\<forall>n. tf_shape_at a 1 = Inr n \<longrightarrow>
               (tf_expand_dims g 1 = Inl e \<longrightarrow> all_rewards float32 u obs h = Inl e) \<and>
               (\<forall>x. tf_expand_dims g 1 = Inr x \<longrightarrow>
                  (tf_tile x [1, n, 1] = Inl e \<longrightarrow> all_rewards float32 u obs h = Inl e) \<and>
                  (\<forall>t. tf_tile x [1, n, 1] = Inr t \<longrightarrow>
                     (tf_concat_last t a = Inl e \<longrightarrow> all_rewards float32 u obs h = Inl e) \<and>
                     (\<forall>c. tf_concat_last t a = Inr c \<longrightarrow>
                        all_rewards float32 u obs h = tf_matvec c hp))))))) \<and>
   (all_rewards float32 u obs h = Inl e \<longrightarrow>
      optimal_reward float32 u obs h = Inl e \<and> optimal_action float32 u obs h = Inl e) \<and>
   (\<forall>rw. all_rewards float32 u obs h = Inr rw \<longrightarrow>
      optimal_reward float32 u obs h = tf_reduce_max_axis1 rw \<and>
      optimal_action float32 u obs h = tf_argmax_axis1 rw) \<and>
   (\<forall>traj :: ('v, 'r) trajectory.
      delitem (observation traj) (PER_ARM_FEATURE_KEY u) = Inl e \<longrightarrow>
      drop_arm_feature_fn u traj = Inl e) \<and>
   (\<forall>lib FLAGS. first_failure lib (main_calls FLAGS) = Some e \<longrightarrow>
      (main float32 lib u FLAGS :: error + ('a::{zero,plus,times,linorder,order_bot}, 'v, 'r) train_call)
        = Inl e) \<and>
   (\<forall>lib FLAGS.
      (main float32 lib u FLAGS :: error + ('a, 'v, 'r) train_call) = Inl e \<longrightarrow>
      first_failure lib (main_calls FLAGS) = Some e \<or>
      (first_failure lib (main_calls FLAGS) = None \<and> e = UnboundLocalError ''network'' \<and>
       FLAGS_network FLAGS \<noteq> ''commontower'' \<and> FLAGS_network FLAGS \<noteq> ''dotproduct'')) \<and>
   (\<forall>lib getenv argv FLAGS. parse_flags getenv argv = Inr FLAGS \<longrightarrow>
      ((\<forall>exitcode. (main float32 lib u FLAGS :: error + ('a, 'v, 'r) train_call)
            \<noteq> Inl (UsageError exitcode)) \<longrightarrow>
         (script float32 lib u getenv argv :: error + ('a, 'v, 'r) train_call)
           = main float32 lib u FLAGS) \<and>
      (\<forall>exitcode. (main float32 lib u FLAGS :: error + ('a, 'v, 'r) train_call)
            = Inl (UsageError exitcode) \<longrightarrow>
         (script float32 lib u getenv argv :: error + ('a, 'v, 'r) train_call)
           = Inl (SystemExit exitcode))) \<and>
   (\<forall>lib getenv argv e'. parse_flags getenv argv = Inl e' \<longrightarrow>
      (script float32 lib u getenv argv :: error + ('a, 'v, 'r) train_call)
        = Inl (SystemExit 1))"
proof (intro conjI)
  show "tf_cast h float32 = Inl e \<longrightarrow> all_rewards float32 u obs h = Inl e"
    by (simp add: all_rewards_def)
  show "\<forall>hp. tf_cast h float32 = Inr hp \<longrightarrow>
      (getitem obs (GLOBAL_FEATURE_KEY u) = Inl e \<longrightarrow> all_rewards float32 u obs h = Inl e) \<and>
      (\<forall>g. getitem obs (GLOBAL_FEATURE_KEY u) = Inr g \<longrightarrow>
         (getitem obs (PER_ARM_FEATURE_KEY u) = Inl e \<longrightarrow> all_rewards float32 u obs h = Inl e) \<and>
         (\<forall>a. getitem obs (PER_ARM_FEATURE_KEY u) = Inr a \<longrightarrow>
            (tf_shape_at a 1 = Inl e \<longrightarrow> all_rewards float32 u obs h = Inl e) \<and>
            (\<forall>n. tf_shape_at a 1 = Inr n \<longrightarrow>
               (tf_expand_dims g 1 = Inl e \<longrightarrow> all_rewards float32 u obs h = Inl e) \<and>
               (\<forall>x. tf_expand_dims g 1 = Inr x \<longrightarrow>
                  (tf_tile x [1, n, 1] = Inl e \<longrightarrow> all_rewards float32 u obs h = Inl e) \<and>
                  (\<forall>t. tf_tile x [1, n, 1] = Inr t \<longrightarrow>
                     (tf_concat_last t a = Inl e \<longrightarrow> all_rewards float32 u obs h = Inl e) \<and>
                     (\<forall>c. tf_concat_last t a = Inr c \<longrightarrow>
                        all_rewards float32 u obs h = tf_matvec c hp))))))"
    by (simp add: all_rewards_def del: One_nat_def)
  show "all_rewards float32 u obs h = Inl e \<longrightarrow>
      optimal_reward float32 u obs h = Inl e \<and> optimal_action float32 u obs h = Inl e"
    by (simp add: optimal_reward_def optimal_action_def)
  show "\<forall>rw. all_rewards float32 u obs h = Inr rw \<longrightarrow>
      optimal_reward float32 u obs h = tf_reduce_max_axis1 rw \<and>
      optimal_action float32 u obs h = tf_argmax_axis1 rw"
    by (simp add: optimal_reward_def optimal_action_def)
  show "\<forall>traj :: ('v, 'r) trajectory.
      delitem (observation traj) (PER_ARM_FEATURE_KEY u) = Inl e \<longrightarrow>
      drop_arm_feature_fn u traj = Inl e"
    by (simp add: drop_arm_feature_fn_def)
  show "\<forall>lib FLAGS. first_failure lib (main_calls FLAGS) = Some e \<longrightarrow>
      (main float32 lib u FLAGS :: error + ('a, 'v, 'r) train_call) = Inl e"
    by (intro allI impI) (rule main_first_failure)
  show "\<forall>lib FLAGS.
      (main float32 lib u FLAGS :: error + ('a, 'v, 'r) train_call) = Inl e \<longrightarrow>
      first_failure lib (main_calls FLAGS) = Some e \<or>
      (first_failure lib (main_calls FLAGS) = None \<and> e = UnboundLocalError ''network'' \<and>
       FLAGS_network FLAGS \<noteq> ''commontower'' \<and> FLAGS_network FLAGS \<noteq> ''dotproduct'')"
    by (intro allI impI) (rule main_Inl_origin)
  show "\<forall>lib getenv argv FLAGS. parse_flags getenv argv = Inr FLAGS \<longrightarrow>
      ((\<forall>exitcode. (main float32 lib u FLAGS :: error + ('a, 'v, 'r) train_call)
            \<noteq> Inl (UsageError exitcode)) \<longrightarrow>
         (script float32 lib u getenv argv :: error + ('a, 'v, 'r) train_call)
           = main float32 lib u FLAGS) \<and>
      (\<forall>exitcode. (main float32 lib u FLAGS :: error + ('a, 'v, 'r) train_call)
            = Inl (UsageError exitcode) \<longrightarrow>
         (script float32 lib u getenv argv :: error + ('a, 'v, 'r) train_call)
           = Inl (SystemExit exitcode))"
    by (simp add: script_def app_run_def split: sum.split error.split)
  show "\<forall>lib getenv argv e'. parse_flags getenv argv = Inl e' \<longrightarrow>
      (script float32 lib u getenv argv :: error + ('a, 'v, 'r) train_call)
        = Inl (SystemExit 1)"
    by (simp add: script_def app_run_def)
qed

theorem exceptions_propagate_unchanged_witness:
  "tf_cast [1, 1, 1, 1] nat = Inr (Tensor [4] [1, 1, 1, 1]) \<and>
   getitem observation_without_arms ''global'' = Inr scenario_global \<and>
   getitem observation_without_arms ''per_arm'' = Inl (KeyError ''per_arm'') \<and>
   all_rewards nat scenario_utils observation_without_arms [1, 1, 1, 1] = Inl (KeyError ''per_arm'') \<and>
   optimal_reward nat scenario_utils observation_without_arms [1, 1, 1, 1] = Inl (KeyError ''per_arm'') \<and>
   optimal_action nat scenario_utils observation_without_arms [1, 1, 1, 1] = Inl (KeyError ''per_arm'') \<and>
   first_failure failing_trainer (main_calls example_flags) = Some (LibraryError ''train'') \<and>
   (main nat failing_trainer scenario_utils example_flags :: error + (nat, nat tensor, unit) train_call)
     = Inl (LibraryError ''train'') \<and>
   parse_flags None example_command_line = Inr example_flags \<and>
   (script nat failing_trainer scenario_utils None example_command_line
      :: error + (nat, nat tensor, unit) train_call) = Inl (LibraryError ''train'') \<and>
   parse_flags None malformed_command_line = Inl (IllegalFlagValueError ''foo'') \<and>
   (script nat failing_trainer scenario_utils None malformed_command_line
      :: error + (nat, nat tensor, unit) train_call) = Inl (SystemExit 1)"
proof -
  have c: "tf_cast [1, 1, 1, 1] nat = Inr (Tensor [4] [1, 1, 1, 1])"
    by (simp add: tf_cast_def fits_int64_def)
  have g: "getitem observation_without_arms (GLOBAL_FEATURE_KEY scenario_utils) = Inr scenario_global"
    by (simp add: getitem_def observation_without_arms_def scenario_utils_def)
  have a: "getitem observation_without_arms (PER_ARM_FEATURE_KEY scenario_utils)
      = Inl (KeyError ''per_arm'')"
    by (simp add: getitem_def observation_without_arms_def scenario_utils_def)
  note key = exceptions_propagate_unchanged [where u = scenario_utils
      and obs = observation_without_arms and h = "[1, 1, 1, 1]" and e = "KeyError ''per_arm''"
      and ?float32.0 = nat and 'a = nat and 'v = "nat tensor" and 'r = unit]
  have r: "all_rewards nat scenario_utils observation_without_arms [1, 1, 1, 1]
      = Inl (KeyError ''per_arm'')"
    by (rule key [THEN conjunct2, THEN conjunct1, rule_format, OF c, THEN conjunct2, rule_format,
          OF g, THEN conjunct1, rule_format, OF a])
  note o = key [THEN conjunct2, THEN conjunct2, THEN conjunct1, rule_format, OF r]
  have f: "first_failure failing_trainer (main_calls example_flags) = Some (LibraryError ''train'')"
    by (simp add: main_calls_def example_flags_def failing_trainer_def)
  note train = exceptions_propagate_unchanged [where u = scenario_utils
      and e = "LibraryError ''train''" and ?float32.0 = nat
      and 'a = nat and 'v = "nat tensor" and 'r = unit]
  note rest = train [THEN conjunct2, THEN conjunct2, THEN conjunct2, THEN conjunct2, THEN conjunct2]
  have m: "(main nat failing_trainer scenario_utils example_flags
      :: error + (nat, nat tensor, unit) train_call) = Inl (LibraryError ''train'')"
    by (rule rest [THEN conjunct1, rule_format, OF f])
  have s: "(script nat failing_trainer scenario_utils None example_command_line
      :: error + (nat, nat tensor, unit) train_call) = Inl (LibraryError ''train'')"
    using rest [THEN conjunct2, THEN conjunct2, THEN conjunct1, rule_format,
        OF parse_example_command_line, of failing_trainer, THEN conjunct1] m
    by simp
  have x: "(script nat failing_trainer scenario_utils None malformed_command_line
      :: error + (nat, nat tensor, unit) train_call) = Inl (SystemExit 1)"
    by (rule rest [THEN conjunct2, THEN conjunct2, THEN conjunct2, rule_format,
          OF parse_malformed_command_line])
  from c g a r o f m s x parse_example_command_line parse_malformed_command_line
  show ?thesis by (simp add: scenario_utils_def)
qed

section \<open>The oracle and the reward of the environment\<close>

text \<open>
  Rounding keeps an integer that the significand can hold, so sums and products of small
  integers are exact in single and in double precision.
\<close>

lemma round_half_even_of_int: "round_half_even (of_int z) = z"
  by (simp add: round_half_even_def)

lemma floor_log2_of_int_le:
  assumes "0 < n" and "n < 2 ^ p"
  shows "floor_log2 (of_int n) \<le> int p - 1"
proof -
  have "bitlen n \<le> int p" using assms(2) by (simp add: bitlen_le_iff_power)
  then show ?thesis
    by (simp add: floor_log2_def quotient_of_int Let_def bitlen_alt_def)
qed

lemma round_ieee_of_int:
  assumes n: "\<bar>n\<bar> < 2 ^ p" and emin: "emin \<le> int p - 1" and emax: "int p \<le> emax + 1"
  shows "round_ieee p emin emax (of_int n) = Fin (of_int n)"
proof (cases "n = 0")
  case True
  then show ?thesis by (simp add: round_ieee_def)
next
  case False
  define e where "e = max (floor_log2 \<bar>of_int n\<bar>) emin"
  define j where "j = nat (int p - 1 - e)"
  have abs: "\<bar>of_int n :: rat\<bar> = of_int \<bar>n\<bar>" by simp
  have "floor_log2 (of_int \<bar>n\<bar>) \<le> int p - 1"
    using False n by (intro floor_log2_of_int_le) auto
  then have e: "e \<le> int p - 1" using emin by (simp add: e_def abs del: of_int_abs)
  then have ej: "e - (int p - 1) = - int j" by (simp add: j_def)
  have "(2 :: rat) powi (e - (int p - 1)) = 2 powi (- int j)" by (simp only: ej)
  also have "\<dots> = inverse (2 powi int j)" by (rule power_int_minus)
  also have "\<dots> = 1 / 2 ^ j" by (simp add: inverse_eq_divide)
  finally have ulp: "(2 :: rat) powi (e - (int p - 1)) = 1 / 2 ^ j" .
  have q: "(of_int n :: rat) / (1 / 2 ^ j) = of_int (n * 2 ^ j)" by simp
  have r: "of_int (round_half_even ((of_int n :: rat) / (1 / 2 ^ j))) * (1 / 2 ^ j) = (of_int n :: rat)"
    unfolding q round_half_even_of_int by simp
  have "(of_int \<bar>n\<bar> :: rat) < 2 ^ p" using n by (metis of_int_less_iff of_int_numeral of_int_power)
  also have "(2 :: rat) ^ p \<le> 2 powi (emax + 1)"
  proof -
    have "(2 :: rat) ^ p = 2 powi int p" by simp
    also have "\<dots> \<le> 2 powi (emax + 1)" using emax by (intro power_int_increasing) auto
    finally show ?thesis .
  qed
  finally have bound: "\<bar>of_int n :: rat\<bar> < 2 powi (emax + 1)" by simp
  then have b1: "\<not> 2 powi (emax + 1) \<le> (of_int n :: rat)" and b2: "\<not> (of_int n :: rat) \<le> - (2 powi (emax + 1))"
    by linarith+
  have nz: "(of_int n :: rat) \<noteq> 0" using False by simp
  show ?thesis
    unfolding round_ieee_def Let_def e_def [symmetric] ulp r using nz b1 b2 by simp
qed

lemma round32_of_int: "\<bar>n\<bar> < 2 ^ 24 \<Longrightarrow> round32 (of_int n) = Fin (of_int n)"
  unfolding round32_def by (rule round_ieee_of_int) simp_all

lemma round64_of_int: "\<bar>n\<bar> < 2 ^ 53 \<Longrightarrow> round64 (of_int n) = Fin (of_int n)"
  unfolding round64_def by (rule round_ieee_of_int) simp_all

lemma ieee_float32_small: "\<bar>n\<bar> < 2 ^ 24 \<Longrightarrow> ieee_float32 n = Float32 (Fin (of_int n))"
  by (simp add: ieee_float32_def round32_of_int)

lemma float64_of_int_small: "\<bar>n\<bar> < 2 ^ 53 \<Longrightarrow> float64_of_int n = Float64 (Fin (of_int n))"
  by (simp add: float64_of_int_def round64_of_int)

lemma float32_step:
  assumes "\<bar>k * t\<bar> < 2 ^ 24" and "\<bar>s + k * t\<bar> < 2 ^ 24"
  shows "Float32 (Fin (of_int s)) + Float32 (Fin (of_int k)) * Float32 (Fin (of_int t))
    = Float32 (Fin (of_int (s + k * t)))"
proof -
  have "round32 (of_int k * of_int t) = Fin (of_int (k * t))"
    using round32_of_int [OF assms(1)] by simp
  moreover have "round32 (of_int s + of_int (k * t)) = Fin (of_int (s + k * t))"
    using round32_of_int [OF assms(2)] by simp
  ultimately show ?thesis by (simp add: plus_float32_def times_float32_def)
qed

lemma float64_step:
  assumes "\<bar>k * t\<bar> < 2 ^ 53" and "\<bar>s + k * t\<bar> < 2 ^ 53"
  shows "Float64 (Fin (of_int s)) + Float64 (Fin (of_int k)) * Float64 (Fin (of_int t))
    = Float64 (Fin (of_int (s + k * t)))"
proof -
  have "round64 (of_int k * of_int t) = Fin (of_int (k * t))"
    using round64_of_int [OF assms(1)] by simp
  moreover have "round64 (of_int s + of_int (k * t)) = Fin (of_int (s + k * t))"
    using round64_of_int [OF assms(2)] by simp
  ultimately show ?thesis by (simp add: plus_float64_def times_float64_def)
qed

lemma sum_abs_nonneg: "0 \<le> sum_list (map2 (\<lambda>k t. \<bar>k * t :: int\<bar>) ks ts)"
  by (rule sum_list_nonneg) auto

lemma foldl_float32_exact:
  assumes "length ks = length ts"
    and "\<bar>s\<bar> + sum_list (map2 (\<lambda>k t. \<bar>k * t\<bar>) ks ts) < 2 ^ 24"
  shows "foldl (\<lambda>acc (x, y). acc + x * y) (Float32 (Fin (of_int s)))
           (zip (map (\<lambda>k. Float32 (Fin (of_int k))) ks) (map (\<lambda>t. Float32 (Fin (of_int t))) ts))
       = Float32 (Fin (of_int (s + sum_list (map2 (*) ks ts))))"
  using assms
proof (induction ks ts arbitrary: s rule: list_induct2)
  case Nil
  then show ?case by simp
next
  case (Cons k ks t ts)
  have nn: "0 \<le> sum_list (map2 (\<lambda>k t. \<bar>k * t\<bar>) ks ts)" by (rule sum_abs_nonneg)
  from Cons.prems nn have 1: "\<bar>k * t\<bar> < 2 ^ 24" and 2: "\<bar>s + k * t\<bar> < 2 ^ 24"
    and 3: "\<bar>s + k * t\<bar> + sum_list (map2 (\<lambda>k t. \<bar>k * t\<bar>) ks ts) < 2 ^ 24"
    by simp_all
  let ?f = "\<lambda>acc (x, y). acc + x * (y :: float32)"
  let ?xs = "zip (map (\<lambda>k. Float32 (Fin (of_int k))) ks) (map (\<lambda>t. Float32 (Fin (of_int t))) ts)"
  have "foldl ?f (Float32 (Fin (of_int s)))
          (zip (map (\<lambda>k. Float32 (Fin (of_int k))) (k # ks)) (map (\<lambda>t. Float32 (Fin (of_int t))) (t # ts)))
      = foldl ?f (Float32 (Fin (of_int s)) + Float32 (Fin (of_int k)) * Float32 (Fin (of_int t))) ?xs"
    by simp
  also have "\<dots> = foldl ?f (Float32 (Fin (of_int (s + k * t)))) ?xs"
    by (simp only: float32_step [OF 1 2])
  also have "\<dots> = Float32 (Fin (of_int (s + k * t + sum_list (map2 (*) ks ts))))"
    by (rule Cons.IH [OF 3])
  also have "\<dots> = Float32 (Fin (of_int (s + sum_list (map2 (*) (k # ks) (t # ts)))))"
    by (simp add: add.assoc)
  finally show ?case .
qed

lemma foldl_float64_exact:
  assumes "length ks = length ts"
    and "\<bar>s\<bar> + sum_list (map2 (\<lambda>k t. \<bar>k * t\<bar>) ks ts) < 2 ^ 53"
  shows "foldl (\<lambda>acc (x, y). acc + x * y) (Float64 (Fin (of_int s)))
           (zip (map (\<lambda>k. Float64 (Fin (of_int k))) ks) (map (\<lambda>t. Float64 (Fin (of_int t))) ts))
       = Float64 (Fin (of_int (s + sum_list (map2 (*) ks ts))))"
  using assms
proof (induction ks ts arbitrary: s rule: list_induct2)
  case Nil
  then show ?case by simp
next
  case (Cons k ks t ts)
  have nn: "0 \<le> sum_list (map2 (\<lambda>k t. \<bar>k * t\<bar>) ks ts)" by (rule sum_abs_nonneg)
  from Cons.prems nn have 1: "\<bar>k * t\<bar> < 2 ^ 53" and 2: "\<bar>s + k * t\<bar> < 2 ^ 53"
    and 3: "\<bar>s + k * t\<bar> + sum_list (map2 (\<lambda>k t. \<bar>k * t\<bar>) ks ts) < 2 ^ 53"
    by simp_all
  let ?f = "\<lambda>acc (x, y). acc + x * (y :: float64)"
  let ?xs = "zip (map (\<lambda>k. Float64 (Fin (of_int k))) ks) (map (\<lambda>t. Float64 (Fin (of_int t))) ts)"
  have "foldl ?f (Float64 (Fin (of_int s)))
          (zip (map (\<lambda>k. Float64 (Fin (of_int k))) (k # ks)) (map (\<lambda>t. Float64 (Fin (of_int t))) (t # ts)))
      = foldl ?f (Float64 (Fin (of_int s)) + Float64 (Fin (of_int k)) * Float64 (Fin (of_int t))) ?xs"
    by simp
  also have "\<dots> = foldl ?f (Float64 (Fin (of_int (s + k * t)))) ?xs"
    by (simp only: float64_step [OF 1 2])
  also have "\<dots> = Float64 (Fin (of_int (s + k * t + sum_list (map2 (*) ks ts))))"
    by (rule Cons.IH [OF 3])
  also have "\<dots> = Float64 (Fin (of_int (s + sum_list (map2 (*) (k # ks) (t # ts)))))"
    by (simp add: add.assoc)
  finally show ?case .
qed

lemma dot_float32_exact:
  assumes "length ks = length ts"
    and "sum_list (map2 (\<lambda>k t. \<bar>k * t\<bar>) ks ts) < 2 ^ 24"
  shows "dot (map (\<lambda>k. Float32 (Fin (of_int k))) ks) (map (\<lambda>t. Float32 (Fin (of_int t))) ts)
       = Float32 (Fin (of_int (sum_list (map2 (*) ks ts))))"
  using foldl_float32_exact [OF assms(1), of 0] assms(2)
  by (simp add: dot_def zero_float32_def)

lemma dot_float64_exact:
  assumes "length ks = length ts"
    and "sum_list (map2 (\<lambda>k t. \<bar>k * t\<bar>) ks ts) < 2 ^ 53"
  shows "dot (map (\<lambda>k. Float64 (Fin (of_int k))) ks) (map (\<lambda>t. Float64 (Fin (of_int t))) ts)
       = Float64 (Fin (of_int (sum_list (map2 (*) ks ts))))"
  using foldl_float64_exact [OF assms(1), of 0] assms(2)
  by (simp add: dot_def zero_float64_def)

lemma length_HIDDEN_PARAM: "length HIDDEN_PARAM = 9"
  by (simp add: HIDDEN_PARAM_def)

lemma HIDDEN_PARAM_fits: "list_all fits_int64 HIDDEN_PARAM"
  by (simp add: HIDDEN_PARAM_def fits_int64_def)

lemma HIDDEN_PARAM_float32:
  "map ieee_float32 HIDDEN_PARAM = map (\<lambda>t. Float32 (Fin (of_int t))) HIDDEN_PARAM"
  by (simp add: HIDDEN_PARAM_def ieee_float32_small)

lemma HIDDEN_PARAM_float64:
  "map float64_of_int HIDDEN_PARAM = map (\<lambda>t. Float64 (Fin (of_int t))) HIDDEN_PARAM"
  by (simp add: HIDDEN_PARAM_def float64_of_int_small)

lemma list_of_length_4: "length xs = 4 \<Longrightarrow> \<exists>a b c d. xs = [a, b, c, d]"
  by (auto simp: length_Suc_conv eval_nat_numeral)

lemma list_of_length_5: "length xs = 5 \<Longrightarrow> \<exists>a b c d e. xs = [a, b, c, d, e]"
  by (auto simp: length_Suc_conv eval_nat_numeral)

lemma sampled_features:
  assumes x: "x \<in> global_context_sampling_fn ieee_float32"
    and y: "y \<in> arm_context_sampling_fn ieee_float32"
  shows "\<exists>ks. x @ y = map (\<lambda>k. Float32 (Fin (of_int k))) ks \<and> length ks = 9 \<and>
           sum_list (map2 (\<lambda>k t. \<bar>k * t\<bar>) ks HIDDEN_PARAM) \<le> 120"
proof -
  from x obtain gs where xg: "x = map ieee_float32 gs" and lg: "length gs = 4"
    and rg: "\<forall>k\<in>set gs. - 10 \<le> k \<and> k < 10"
    by (auto simp: global_context_sampling_fn_def)
  from y obtain as where ya: "y = map ieee_float32 as" and la: "length as = 5"
    and ra: "\<forall>k\<in>set as. - 2 \<le> k \<and> k < 3"
    by (auto simp: arm_context_sampling_fn_def)
  from list_of_length_4 [OF lg] obtain g1 g2 g3 g4 where gs: "gs = [g1, g2, g3, g4]" by blast
  from list_of_length_5 [OF la] obtain a1 a2 a3 a4 a5 where as: "as = [a1, a2, a3, a4, a5]"
    by blast
  from rg have bg: "\<bar>g1\<bar> \<le> 10" "\<bar>g2\<bar> \<le> 10" "\<bar>g3\<bar> \<le> 10" "\<bar>g4\<bar> \<le> 10"
    by (auto simp: gs)
  from ra have ba: "\<bar>a1\<bar> \<le> 2" "\<bar>a2\<bar> \<le> 2" "\<bar>a3\<bar> \<le> 2" "\<bar>a4\<bar> \<le> 2" "\<bar>a5\<bar> \<le> 2"
    by (auto simp: as)
  have small: "\<forall>k\<in>set (gs @ as). \<bar>k\<bar> < 2 ^ 24"
    using bg ba by (auto simp: gs as)
  have "x @ y = map ieee_float32 (gs @ as)" by (simp add: xg ya)
  also have "\<dots> = map (\<lambda>k. Float32 (Fin (of_int k))) (gs @ as)"
    by (rule map_cong [OF refl]) (use small in \<open>simp add: ieee_float32_small\<close>)
  finally have 1: "x @ y = map (\<lambda>k. Float32 (Fin (of_int k))) (gs @ as)" .
  have 2: "length (gs @ as) = 9" by (simp add: lg la)
  have 3: "sum_list (map2 (\<lambda>k t. \<bar>k * t\<bar>) (gs @ as) HIDDEN_PARAM) \<le> 120"
    using bg ba by (simp add: gs as HIDDEN_PARAM_def abs_mult)
  from 1 2 3 show ?thesis by blast
qed

lemma oracle_reward_exact:
  assumes ks: "length ks = 9" and b: "sum_list (map2 (\<lambda>k t. \<bar>k * t\<bar>) ks HIDDEN_PARAM) \<le> 120"
  shows "dot (map (\<lambda>k. Float32 (Fin (of_int k))) ks) (map ieee_float32 HIDDEN_PARAM)
      = Float32 (Fin (of_int (sum_list (map2 (*) ks HIDDEN_PARAM))))"
proof -
  have l: "length ks = length HIDDEN_PARAM" by (simp add: ks length_HIDDEN_PARAM)
  have "sum_list (map2 (\<lambda>k t. \<bar>k * t\<bar>) ks HIDDEN_PARAM) < 2 ^ 24" using b by simp
  from dot_float32_exact [OF l this] show ?thesis by (simp only: HIDDEN_PARAM_float32)
qed

lemma environment_reward_exact:
  assumes ks: "length ks = 9" and b: "sum_list (map2 (\<lambda>k t. \<bar>k * t\<bar>) ks HIDDEN_PARAM) \<le> 120"
  shows "call_reward (LinearNormalReward HIDDEN_PARAM) (map (\<lambda>k. Float32 (Fin (of_int k))) ks)
      = Inr (Normal (Float64 (Fin (of_int (sum_list (map2 (*) ks HIDDEN_PARAM))))) 1)"
proof -
  have l: "length ks = length HIDDEN_PARAM" by (simp add: ks length_HIDDEN_PARAM)
  have "sum_list (map2 (\<lambda>k t. \<bar>k * t\<bar>) ks HIDDEN_PARAM) < 2 ^ 53" using b by simp
  from dot_float64_exact [OF l this]
  have d: "dot (map (\<lambda>k. Float64 (Fin (of_int k))) ks) (map float64_of_int HIDDEN_PARAM)
      = Float64 (Fin (of_int (sum_list (map2 (*) ks HIDDEN_PARAM))))"
    by (simp only: HIDDEN_PARAM_float64)
  have c: "map float64_of_float32 (map (\<lambda>k. Float32 (Fin (of_int k))) ks)
      = map (\<lambda>k. Float64 (Fin (of_int k))) ks"
    by (simp add: float64_of_float32_def)
  have np: "np_dot (map (\<lambda>k. Float32 (Fin (of_int k))) ks) HIDDEN_PARAM
      = Inr (dot (map float64_of_float32 (map (\<lambda>k. Float32 (Fin (of_int k))) ks))
               (map float64_of_int HIDDEN_PARAM))"
    by (simp add: np_dot_def l HIDDEN_PARAM_fits del: map_map)
  show ?thesis
    unfolding call_reward_def linear_normal_reward.sel np c d by simp
qed

text \<open>
  C9. Whenever \<^verbatim>\<open>main\<close> reaches the trainer, the reward function of the environment is
  \<^verbatim>\<open>LinearNormalReward(HIDDEN_PARAM)\<close> and the two metrics hold \<^verbatim>\<open>optimal_reward\<close> and
  \<^verbatim>\<open>optimal_action\<close> with \<^verbatim>\<open>hidden_param=HIDDEN_PARAM\<close>. For every valid observation
  whose global features and arm features are vectors that the context sampling functions of
  that environment can return, the reward function of the environment, called on the
  global features followed by the features of an arm, returns a normal distribution whose
  mean, a \<^verbatim>\<open>float64\<close> computed in double precision, is the \<^verbatim>\<open>float32\<close> reward that
  \<^verbatim>\<open>_all_rewards\<close> computes for that arm in single precision.
\<close>

theorem oracle_matches_environment_reward:
  assumes m: "main ieee_float32 lib u FLAGS = Inr call"
    and v: "valid_observation u obs g a B n 4 5"
    and sg: "\<forall>b<B. vec_at2 g b \<in> env_global_context_sampling_fn (py_env (train_environment call))"
    and sa: "\<forall>b<B. \<forall>i<n. vec_at3 a b i
               \<in> env_arm_context_sampling_fn (py_env (train_environment call))"
  shows "env_reward_fn (py_env (train_environment call)) = LinearNormalReward HIDDEN_PARAM \<and>
         train_additional_metrics call =
           [RegretMetric (\<lambda>observation. optimal_reward ieee_float32 u observation HIDDEN_PARAM),
            SuboptimalArmsMetric
              (\<lambda>observation. optimal_action ieee_float32 u observation HIDDEN_PARAM)] \<and>
         (\<exists>rw. all_rewards ieee_float32 u obs HIDDEN_PARAM = Inr rw \<and>
            (\<forall>b<B. \<forall>i<n. \<exists>dist.
               call_reward (env_reward_fn (py_env (train_environment call)))
                 (vec_at2 g b @ vec_at3 a b i) = Inr dist \<and>
               mean dist = float64_of_float32 (elem_at2 rw b i)))"
proof -
  have h: "length HIDDEN_PARAM = 4 + 5" by (simp add: length_HIDDEN_PARAM)
  have fn: "env_reward_fn (py_env (train_environment call)) = LinearNormalReward HIDDEN_PARAM"
    by (rule main_Inr_wiring(3) [OF m])
  let ?rw = "Tensor [B, n] (map (\<lambda>r. dot r (map ieee_float32 HIDDEN_PARAM))
      (feature_rows g a B n 4 5))"
  have rw: "all_rewards ieee_float32 u obs HIDDEN_PARAM = Inr ?rw"
    by (rule all_rewards_closed_form [OF v h HIDDEN_PARAM_fits])
  have "\<forall>b<B. \<forall>i<n. \<exists>dist.
               call_reward (env_reward_fn (py_env (train_environment call)))
                 (vec_at2 g b @ vec_at3 a b i) = Inr dist \<and>
               mean dist = float64_of_float32 (elem_at2 ?rw b i)"
  proof (intro allI impI)
    fix b i assume b: "b < B" and i: "i < n"
    let ?x = "vec_at2 g b @ vec_at3 a b i"
    from sg b have "vec_at2 g b \<in> global_context_sampling_fn ieee_float32"
      by (simp add: main_Inr_wiring(8) [OF m])
    moreover from sa b i have "vec_at3 a b i \<in> arm_context_sampling_fn ieee_float32"
      by (simp add: main_Inr_wiring(9) [OF m])
    ultimately obtain ks where x: "?x = map (\<lambda>k. Float32 (Fin (of_int k))) ks"
      and ks: "length ks = 9"
      and bound: "sum_list (map2 (\<lambda>k t. \<bar>k * t\<bar>) ks HIDDEN_PARAM) \<le> 120"
      using sampled_features by blast
    have idx: "b * n + i < length (feature_rows g a B n 4 5)"
      using flat_index [OF b i] by (simp add: length_feature_rows)
    have "elem_at2 ?rw b i = dot ?x (map ieee_float32 HIDDEN_PARAM)"
      using idx by (simp add: elem_at2_def feature_rows_nth [OF v b i])
    then have e: "elem_at2 ?rw b i
        = Float32 (Fin (of_int (sum_list (map2 (*) ks HIDDEN_PARAM))))"
      by (simp only: x oracle_reward_exact [OF ks bound])
    have c: "call_reward (env_reward_fn (py_env (train_environment call))) ?x
        = Inr (Normal (Float64 (Fin (of_int (sum_list (map2 (*) ks HIDDEN_PARAM))))) 1)"
      by (simp only: fn x environment_reward_exact [OF ks bound])
    show "\<exists>dist.
               call_reward (env_reward_fn (py_env (train_environment call))) ?x = Inr dist \<and>
               mean dist = float64_of_float32 (elem_at2 ?rw b i)"
      by (simp only: c e) (simp add: float64_of_float32_def)
  qed
  with rw fn main_Inr_wiring(4) [OF m] show ?thesis by blast
qed

lemma environment_observation_valid:
  "valid_observation scenario_utils environment_observation
     environment_global environment_per_arm 1 2 4 5"
  by (simp add: valid_observation_def scenario_utils_def environment_observation_def
      environment_global_def environment_per_arm_def wf_tensor_def)

lemma environment_observation_global:
  "vec_at2 environment_global 0 = map ieee_float32 [- 10, 9, 0, 3]"
  by (simp add: vec_at2_def environment_global_def)

lemma environment_observation_arms:
  "vec_at3 environment_per_arm 0 0 = map ieee_float32 [- 2, 2, 1, 0, - 1]"
  "vec_at3 environment_per_arm 0 1 = map ieee_float32 [2, 2, 2, 2, 2]"
  by (simp_all add: vec_at3_def environment_per_arm_def)

lemma environment_observation_sampled:
  "vec_at2 environment_global 0 \<in> global_context_sampling_fn ieee_float32"
  "vec_at3 environment_per_arm 0 0 \<in> arm_context_sampling_fn ieee_float32"
  "vec_at3 environment_per_arm 0 1 \<in> arm_context_sampling_fn ieee_float32"
proof -
  show "vec_at2 environment_global 0 \<in> global_context_sampling_fn ieee_float32"
    unfolding global_context_sampling_fn_def environment_observation_global
    by (intro CollectI exI [of _ "[- 10, 9, 0, 3]"]) simp
  show "vec_at3 environment_per_arm 0 0 \<in> arm_context_sampling_fn ieee_float32"
    unfolding arm_context_sampling_fn_def environment_observation_arms
    by (intro CollectI exI [of _ "[- 2, 2, 1, 0, - 1]"]) simp
  show "vec_at3 environment_per_arm 0 1 \<in> arm_context_sampling_fn ieee_float32"
    unfolding arm_context_sampling_fn_def environment_observation_arms
    by (intro CollectI exI [of _ "[2, 2, 2, 2, 2]"]) simp
qed

lemma environment_observation_rewards:
  "all_rewards ieee_float32 scenario_utils environment_observation HIDDEN_PARAM
     = Inr (Tensor [1, 2] [Float32 (Fin 18), Float32 (Fin 78)])"
  by code_simp

theorem oracle_matches_environment_reward_witness:
  "valid_observation scenario_utils environment_observation
     environment_global environment_per_arm 1 2 4 5 \<and>
   vec_at2 environment_global 0 \<in> global_context_sampling_fn ieee_float32 \<and>
   vec_at3 environment_per_arm 0 0 \<in> arm_context_sampling_fn ieee_float32 \<and>
   vec_at3 environment_per_arm 0 1 \<in> arm_context_sampling_fn ieee_float32 \<and>
   all_rewards ieee_float32 scenario_utils environment_observation HIDDEN_PARAM
     = Inr (Tensor [1, 2] [Float32 (Fin 18), Float32 (Fin 78)]) \<and>
   (\<exists>call :: (float32, float32 tensor, unit) train_call.
      main ieee_float32 no_failure scenario_utils example_flags = Inr call \<and>
      (\<exists>dist. call_reward (env_reward_fn (py_env (train_environment call)))
                 (map ieee_float32 [- 10, 9, 0, 3, - 2, 2, 1, 0, - 1]) = Inr dist \<and>
               mean dist = Float64 (Fin 18)) \<and>
      (\<exists>dist. call_reward (env_reward_fn (py_env (train_environment call)))
                 (map ieee_float32 [- 10, 9, 0, 3, 2, 2, 2, 2, 2]) = Inr dist \<and>
               mean dist = Float64 (Fin 78)))"
proof -
  from main_example obtain call :: "(float32, float32 tensor, unit) train_call"
    where call: "main ieee_float32 no_failure scenario_utils example_flags = Inr call" by blast
  have sg: "\<forall>b<1. vec_at2 environment_global b
      \<in> env_global_context_sampling_fn (py_env (train_environment call))"
    by (simp add: main_Inr_wiring(8) [OF call] environment_observation_sampled)
  have sa: "\<forall>b<1. \<forall>i<2. vec_at3 environment_per_arm b i
      \<in> env_arm_context_sampling_fn (py_env (train_environment call))"
    by (auto simp: main_Inr_wiring(9) [OF call] less_Suc_eq numeral_2_eq_2
        environment_observation_sampled environment_observation_sampled(3) [unfolded One_nat_def])
  from oracle_matches_environment_reward [OF call environment_observation_valid sg sa]
  obtain rw where rw: "all_rewards ieee_float32 scenario_utils environment_observation HIDDEN_PARAM
        = Inr rw"
    and mu: "\<forall>b<1. \<forall>i<2. \<exists>dist.
               call_reward (env_reward_fn (py_env (train_environment call)))
                 (vec_at2 environment_global b @ vec_at3 environment_per_arm b i) = Inr dist \<and>
               mean dist = float64_of_float32 (elem_at2 rw b i)"
    by blast
  from rw have rw_eq: "rw = Tensor [1, 2] [Float32 (Fin 18), Float32 (Fin 78)]"
    unfolding environment_observation_rewards by simp
  have e: "float64_of_float32 (elem_at2 rw 0 0) = Float64 (Fin 18)"
    "float64_of_float32 (elem_at2 rw 0 1) = Float64 (Fin 78)"
    by (simp_all add: rw_eq elem_at2_def float64_of_float32_def)
  have x: "vec_at2 environment_global 0 @ vec_at3 environment_per_arm 0 0
        = map ieee_float32 [- 10, 9, 0, 3, - 2, 2, 1, 0, - 1]"
    "vec_at2 environment_global 0 @ vec_at3 environment_per_arm 0 1
        = map ieee_float32 [- 10, 9, 0, 3, 2, 2, 2, 2, 2]"
    by (simp_all only: environment_observation_global environment_observation_arms
        map_append [symmetric] append.simps)
  from mu have "\<exists>dist. call_reward (env_reward_fn (py_env (train_environment call)))
                 (vec_at2 environment_global 0 @ vec_at3 environment_per_arm 0 0) = Inr dist \<and>
               mean dist = float64_of_float32 (elem_at2 rw 0 0)"
    by simp
  then have m0: "\<exists>dist. call_reward (env_reward_fn (py_env (train_environment call)))
                 (map ieee_float32 [- 10, 9, 0, 3, - 2, 2, 1, 0, - 1]) = Inr dist \<and>
               mean dist = Float64 (Fin 18)"
    by (simp only: x e)
  from mu have "\<exists>dist. call_reward (env_reward_fn (py_env (train_environment call)))
                 (vec_at2 environment_global 0 @ vec_at3 environment_per_arm 0 1) = Inr dist \<and>
               mean dist = float64_of_float32 (elem_at2 rw 0 1)"
    by simp
  then have m1: "\<exists>dist. call_reward (env_reward_fn (py_env (train_environment call)))
                 (map ieee_float32 [- 10, 9, 0, 3, 2, 2, 2, 2, 2]) = Inr dist \<and>
               mean dist = Float64 (Fin 78)"
    by (simp only: x e)
  from environment_observation_valid environment_observation_sampled
    environment_observation_rewards call m0 m1
  show ?thesis by blast
qed

end
